theory Spec2Isabelle
  imports
    Main
    "HOL-Library.Word"
    "HOL-Library.Char_ord"
    "HOL-Library.List_Lexorder"
    "HOL-Library.Multiset"
    "HOL-Library.Sublist"
    "HOL-Library.AList"
begin

section \<open>resume-mcp: the access gate and the tool dispatcher of \<open>src/index.ts\<close>\<close>

text \<open>
  The worker of \<open>src/index.ts\<close> is embedded function by function. Mutation is explicit
  state passing, \<open>throw\<close> is the left summand of a sum, and what the platform supplies
  (SHA-256, \<open>String.prototype.toLowerCase\<close>, the conversion of a string to a number, the
  clock, \<open>crypto.randomUUID\<close>, the failures of the key-value store, the agent-token
  library, the profile document \<open>data/profile.json\<close>) is a parameter of the functions that
  use it.

  Conventions of the embedding:
  \<^item> an optional property is an \<open>option\<close>; \<open>None\<close> is JavaScript's \<open>undefined\<close>;
  \<^item> the \<open>params\<close> of an invocation are declared \<open>Record<string, unknown>\<close>, and the tool
    name and the arguments are read from them through unchecked casts: each of them is
    any JSON value, read property by property with JavaScript's coercions; \<open>id\<close> and
    \<open>method\<close> have the types that \<open>interface JsonRpcRequest\<close> declares;
  \<^item> numbers are integers, of magnitude below \<open>10^21\<close> where they are printed;
  \<^item> strings are byte strings;
  \<^item> \<open>JSON.stringify\<close> is not computed: a serialised text is the value it serialises,
    under a constructor that records which call produced it.
\<close>

subsection \<open>Data\<close>

datatype json =
    JNull
  | JBool bool
  | JNum int
  | JStr string
  | JArr "json list"
  | JObj "(string \<times> json) list"

text \<open>\<open>data/profile.json\<close>: only the properties the code reads are named; the rest of
  each item is carried along unread.\<close>

record Project =
  tags :: "string list"
  featured :: bool
  project_rest :: json

record Writing =
  platform :: string
  writing_rest :: json

record Experience =
  current :: bool
  experience_rest :: json

record ProfileData =
  profile :: json
  projects :: "Project list"
  writing :: "Writing list"
  experience :: "Experience list"
  skills :: "(string \<times> json) list"

text \<open>\<open>interface GuestbookEntry\<close>. \<open>name\<close>, \<open>message\<close>, \<open>agent_id\<close> and \<open>contact\<close> are
  declared strings, but \<open>leaveMessage\<close> copies them from the arguments unchecked, so each
  is whatever JSON value the caller sent, or \<open>undefined\<close>. The timestamp is the ISO string
  of an instant; it is kept as the instant's milliseconds (\<open>toISOString\<close> and
  \<open>new Date(s).getTime()\<close> are inverse to each other there).\<close>

record GuestbookEntry =
  entry_name :: "json option"
  entry_message :: "json option"
  agent_id :: "json option"
  contact :: "json option"
  timestamp :: nat
  ip_hash :: "string option"

record SessionState =
  hasAccess :: bool
  agentToken :: "string option"

subsection \<open>JavaScript primitives the code relies on\<close>

text \<open>A thrown value; the handlers read \<open>e.message\<close> when it is an \<open>Error\<close>.\<close>

datatype exn = JsError string | NonError

definition exn_message :: "exn \<Rightarrow> string" where
  "exn_message e = (case e of JsError m \<Rightarrow> m | NonError \<Rightarrow> ''Unknown error'')"

text \<open>Truthiness of an optional string (a header) and of an optional JSON value.\<close>

fun truthy_str :: "string option \<Rightarrow> bool" where
  "truthy_str None = False"
| "truthy_str (Some s) = (s \<noteq> [])"

fun truthy :: "json option \<Rightarrow> bool" where
  "truthy None = False"
| "truthy (Some JNull) = False"
| "truthy (Some (JBool b)) = b"
| "truthy (Some (JNum n)) = (n \<noteq> 0)"
| "truthy (Some (JStr s)) = (s \<noteq> [])"
| "truthy (Some (JArr xs)) = True"
| "truthy (Some (JObj obj)) = True"

text \<open>The own property \<open>k\<close> of a parsed object: \<open>JSON.parse\<close> keeps the last of several
  members with one name.\<close>

definition own_property :: "(string \<times> json) list \<Rightarrow> string \<Rightarrow> json option" where
  "own_property obj k = map_of (rev obj) k"

text \<open>The read \<open>v.k\<close> for the names the handlers read (\<open>tag\<close>, \<open>limit\<close>, \<open>name\<close>, ...), none
  of which is on a prototype: an object gives its own property, every other value
  \<open>undefined\<close>.\<close>

fun get_property :: "json \<Rightarrow> string \<Rightarrow> json option" where
  "get_property (JObj obj) k = own_property obj k"
| "get_property JNull k = None"
| "get_property (JBool b) k = None"
| "get_property (JNum n) k = None"
| "get_property (JStr s) k = None"
| "get_property (JArr xs) k = None"

text \<open>Decimal digits of a number.\<close>

fun show_nat :: "nat \<Rightarrow> string" where
  "show_nat n =
     (if n < 10 then [''0123456789'' ! n]
      else show_nat (n div 10) @ [''0123456789'' ! (n mod 10)])"

declare show_nat.simps [simp del]

definition show_int :: "int \<Rightarrow> string" where
  "show_int n = (if n < 0 then ''-'' @ show_nat (nat (- n)) else show_nat (nat n))"

text \<open>\<open>ToString\<close> of a JSON value, as a template literal and a computed property key apply
  it. An array joins the strings of its elements with commas, \<open>null\<close> giving the empty
  string. An object gives \<open>[object Object]\<close> through the inherited
  \<open>Object.prototype.toString\<close>; when it has an own member \<open>toString\<close>, that member is not
  callable, \<open>valueOf\<close> returns no primitive, and the conversion throws a \<open>TypeError\<close>.\<close>

definition not_primitive :: exn where
  "not_primitive = JsError ''Cannot convert object to primitive value''"

fun js_string :: "json \<Rightarrow> exn + string"
  and js_join :: "json list \<Rightarrow> exn + string" where
  "js_string JNull = Inr ''null''"
| "js_string (JBool b) = Inr (if b then ''true'' else ''false'')"
| "js_string (JNum n) = Inr (show_int n)"
| "js_string (JStr s) = Inr s"
| "js_string (JArr xs) = js_join xs"
| "js_string (JObj obj) =
     (if own_property obj ''toString'' \<noteq> None then Inl not_primitive
      else Inr ''[object Object]'')"
| "js_join [] = Inr ''''"
| "js_join (x # xs) =
     (case (if x = JNull then Inr '''' else js_string x) of
        Inl e \<Rightarrow> Inl e
      | Inr s \<Rightarrow>
          if xs = [] then Inr s
          else (case js_join xs of Inl e \<Rightarrow> Inl e | Inr t \<Rightarrow> Inr (s @ '','' @ t)))"

fun template_json :: "json option \<Rightarrow> exn + string" where
  "template_json None = Inr ''undefined''"
| "template_json (Some v) = js_string v"

text \<open>\<open>ToNumber\<close> of a JSON value; \<open>None\<close> is \<open>NaN\<close>. The conversion of a string is the
  engine's.\<close>

definition to_number :: "(string \<Rightarrow> int option) \<Rightarrow> json \<Rightarrow> exn + int option" where
  "to_number StringToNumber v =
     (case v of
        JNull \<Rightarrow> Inr (Some 0)
      | JBool b \<Rightarrow> Inr (Some (if b then 1 else 0))
      | JNum n \<Rightarrow> Inr (Some n)
      | JStr s \<Rightarrow> Inr (StringToNumber s)
      | JArr xs \<Rightarrow> (case js_string v of Inl e \<Rightarrow> Inl e | Inr s \<Rightarrow> Inr (StringToNumber s))
      | JObj obj \<Rightarrow> (case js_string v of Inl e \<Rightarrow> Inl e | Inr s \<Rightarrow> Inr (StringToNumber s)))"

text \<open>The properties every object literal inherits from \<open>Object.prototype\<close>. The \<open>in\<close>
  operator looks through the prototype chain, so it finds them on any plain object.\<close>

definition Object_prototype :: "string list" where
  "Object_prototype =
     [''constructor'', ''__defineGetter__'', ''__defineSetter__'', ''hasOwnProperty'',
      ''__lookupGetter__'', ''__lookupSetter__'', ''isPrototypeOf'',
      ''propertyIsEnumerable'', ''toString'', ''valueOf'', ''__proto__'',
      ''toLocaleString'']"

text \<open>What \<open>obj[k]\<close> finds: an own property, a member inherited from \<open>Object.prototype\<close>,
  or nothing.\<close>

datatype member = Own json | Inherited string

definition js_get :: "(string \<times> json) list \<Rightarrow> string \<Rightarrow> member option" where
  "js_get obj k =
     (case own_property obj k of
        Some v \<Rightarrow> Some (Own v)
      | None \<Rightarrow> if k \<in> set Object_prototype then Some (Inherited k) else None)"

definition js_in :: "string \<Rightarrow> (string \<times> json) list \<Rightarrow> bool" where
  "js_in k obj = (js_get obj k \<noteq> None)"

text \<open>What the engine and the runtime supply to the tool implementations: the SHA-256
  digest of \<open>crypto.subtle\<close>, \<open>String.prototype.toLowerCase\<close>, and the conversion of a
  string to a number.\<close>

record Platform =
  subtle_digest :: "string \<Rightarrow> 8 word list"
  toLowerCase :: "string \<Rightarrow> string"
  StringToNumber :: "string \<Rightarrow> int option"

subsection \<open>The tool catalog\<close>

record Property =
  prop_type :: string
  prop_description :: string

record InputSchema =
  schema_type :: string
  properties :: "(string \<times> Property) list"
  required :: "string list"

record Tool =
  tool_name :: string
  description :: string
  inputSchema :: InputSchema

definition TOOLS :: "Tool list" where
  "TOOLS =
   [ \<lparr> tool_name = ''get_profile'',
       description = ''Get basic profile information including name, tagline, links, and contact info.'',
       inputSchema = \<lparr> schema_type = ''object'', properties = [], required = [] \<rparr> \<rparr>,
     \<lparr> tool_name = ''get_projects'',
       description = ''Get list of projects, optionally filtered by tag.'',
       inputSchema = \<lparr> schema_type = ''object'',
         properties =
           [(''tag'', \<lparr> prop_type = ''string'', prop_description = ''Filter projects by tag'' \<rparr>),
            (''featured_only'', \<lparr> prop_type = ''boolean'', prop_description = ''Only return featured projects'' \<rparr>)],
         required = [] \<rparr> \<rparr>,
     \<lparr> tool_name = ''get_writing'',
       description = ''Get list of articles and blog posts.'',
       inputSchema = \<lparr> schema_type = ''object'',
         properties =
           [(''platform'', \<lparr> prop_type = ''string'', prop_description = ''Filter by platform'' \<rparr>),
            (''limit'', \<lparr> prop_type = ''number'', prop_description = ''Max posts to return'' \<rparr>)],
         required = [] \<rparr> \<rparr>,
     \<lparr> tool_name = ''get_experience'',
       description = ''Get work experience history. Requires guestbook entry or Agent Token.'',
       inputSchema = \<lparr> schema_type = ''object'',
         properties =
           [(''current_only'', \<lparr> prop_type = ''boolean'', prop_description = ''Only return current position(s)'' \<rparr>)],
         required = [] \<rparr> \<rparr>,
     \<lparr> tool_name = ''get_skills'',
       description = ''Get technical skills by category. Requires guestbook entry or Agent Token.'',
       inputSchema = \<lparr> schema_type = ''object'',
         properties =
           [(''category'', \<lparr> prop_type = ''string'',
              prop_description = ''Filter by category: languages, frameworks, infrastructure, domains'' \<rparr>)],
         required = [] \<rparr> \<rparr>,
     \<lparr> tool_name = ''leave_message'',
       description = ''Leave a message in the guestbook. Unlocks access to gated tools.'',
       inputSchema = \<lparr> schema_type = ''object'',
         properties =
           [(''name'', \<lparr> prop_type = ''string'', prop_description = ''Your name or identifier'' \<rparr>),
            (''message'', \<lparr> prop_type = ''string'', prop_description = ''Your message or reason for visiting'' \<rparr>),
            (''agent_id'', \<lparr> prop_type = ''string'', prop_description = ''Optional agent identifier'' \<rparr>),
            (''contact'', \<lparr> prop_type = ''string'', prop_description = ''Optional contact info'' \<rparr>)],
         required = [''name'', ''message''] \<rparr> \<rparr> ]"

definition FREE_TOOLS :: "string list" where
  "FREE_TOOLS = [''get_profile'', ''get_projects'', ''get_writing'', ''leave_message'']"

definition GATED_TOOLS :: "string list" where
  "GATED_TOOLS = [''get_experience'', ''get_skills'']"

subsection \<open>Tool implementations\<close>

definition getProfile :: "ProfileData \<Rightarrow> json" where
  "getProfile pd = profile pd"

text \<open>\<open>getProjects\<close>. \<open>params.tag.toLowerCase()\<close> is called inside the callback of
  \<open>filter\<close>, once for each project: a truthy tag that is not a string throws a
  \<open>TypeError\<close> at the first project, and nothing when there is no project.\<close>

definition getProjects :: "Platform \<Rightarrow> ProfileData \<Rightarrow> json \<Rightarrow> exn + Project list" where
  "getProjects pf pd params =
     (let ps = projects pd;
          tag = get_property params ''tag''
      in case (if truthy tag
               then (case tag of
                       Some (JStr t) \<Rightarrow> Inr (filter (\<lambda>p. toLowerCase pf t \<in> set (tags p)) ps)
                     | _ \<Rightarrow>
                         if ps = [] then Inr []
                         else Inl (JsError ''params.tag.toLowerCase is not a function''))
               else Inr ps) of
           Inl e \<Rightarrow> Inl e
         | Inr ps \<Rightarrow>
             Inr (if truthy (get_property params ''featured_only'') then filter featured ps
                  else ps))"

text \<open>\<open>getWriting\<close>. \<open>===\<close> holds only for a string equal to the platform. \<open>params.limit > 0\<close>
  and \<open>slice(0, params.limit)\<close> convert the limit to a number, which throws for an object
  that cannot be converted; \<open>NaN > 0\<close> is false.\<close>

definition getWriting :: "Platform \<Rightarrow> ProfileData \<Rightarrow> json \<Rightarrow> exn + Writing list" where
  "getWriting pf pd params =
     (let ws = writing pd;
          wanted = get_property params ''platform'';
          ws = (if truthy wanted then filter (\<lambda>w. Some (JStr (platform w)) = wanted) ws else ws)
      in case get_property params ''limit'' of
           None \<Rightarrow> Inr ws
         | Some v \<Rightarrow>
             if truthy (Some v)
             then (case to_number (StringToNumber pf) v of
                     Inl e \<Rightarrow> Inl e
                   | Inr None \<Rightarrow> Inr ws
                   | Inr (Some n) \<Rightarrow> Inr (if n > 0 then take (nat n) ws else ws))
             else Inr ws)"

definition getExperience :: "ProfileData \<Rightarrow> json \<Rightarrow> Experience list" where
  "getExperience pd params =
     (let es = experience pd;
          es = (if truthy (get_property params ''current_only'') then filter current es else es)
      in es)"

text \<open>\<open>getSkills\<close> returns either the whole \<open>skills\<close> object or a fresh object with the one
  computed key \<open>[params.category]\<close>, whose value is whatever \<open>skills[params.category]\<close>
  finds. Both \<open>in\<close> and the computed key convert the category to a property key.\<close>

datatype SkillsResult =
    AllSkills "(string \<times> json) list"
  | OneKey string "member option"

definition getSkills :: "ProfileData \<Rightarrow> json \<Rightarrow> exn + SkillsResult" where
  "getSkills pd params =
     (let sk = skills pd in
      case get_property params ''category'' of
        None \<Rightarrow> Inr (AllSkills sk)
      | Some c \<Rightarrow>
          if truthy (Some c)
          then (case js_string c of
                  Inl e \<Rightarrow> Inl e
                | Inr k \<Rightarrow> Inr (if js_in k sk then OneKey k (js_get sk k) else AllSkills sk))
          else Inr (AllSkills sk))"

subsection \<open>Platform services\<close>

text \<open>\<open>hashIP\<close>: the first eight bytes of the SHA-256 digest of the salted address, two
  lower-case hexadecimal digits each.\<close>

definition hex_digit :: "nat \<Rightarrow> char" where
  "hex_digit n = ''0123456789abcdef'' ! (n mod 16)"

definition hex2 :: "8 word \<Rightarrow> string" where
  "hex2 b = [hex_digit (unat b div 16), hex_digit (unat b mod 16)]"

definition hashIP :: "Platform \<Rightarrow> string \<Rightarrow> string" where
  "hashIP pf ip = concat (map hex2 (take 8 (subtle_digest pf (ip @ ''resume-mcp-salt''))))"

text \<open>What one call of \<open>leaveMessage\<close> draws from its surroundings: \<open>new Date()\<close> for the
  entry, \<open>Date.now()\<close> and \<open>crypto.randomUUID()\<close> for the key, and whether the awaited
  \<open>put\<close> rejects, and with what.\<close>

record Draw =
  date_iso :: nat
  date_now :: nat
  uuid :: string
  put_error :: "exn option"

definition entry_key :: "Draw \<Rightarrow> string" where
  "entry_key d = ''entry:'' @ show_nat (date_now d) @ '':'' @ uuid d"

text \<open>The key-value namespace \<open>GUESTBOOK\<close>: \<open>put\<close> overwrites or adds a key, \<open>get\<close> reads
  one, \<open>list\<close> returns one page of the keys with a prefix, in lexicographic order. The
  handler reads \<open>list.keys\<close> of a single call and never follows the cursor, and one call
  of \<open>list\<close> on Workers KV returns at most 1000 keys. The stored text
  \<open>JSON.stringify(entry)\<close> is kept as the entry, which \<open>JSON.parse\<close> gives back.\<close>

record KVItem =
  kv_value :: GuestbookEntry
  kv_metadata :: "json option \<times> nat"

type_synonym KVNamespace = "(string \<times> KVItem) list"

definition kv_put :: "string \<Rightarrow> KVItem \<Rightarrow> KVNamespace \<Rightarrow> KVNamespace" where
  "kv_put k v kv = AList.update k v kv"

definition kv_get :: "KVNamespace \<Rightarrow> string \<Rightarrow> KVItem option" where
  "kv_get kv k = map_of kv k"

definition startsWith :: "string \<Rightarrow> string \<Rightarrow> bool" where
  "startsWith k pfx = (take (length pfx) k = pfx)"

definition kv_page :: nat where
  "kv_page = 1000"

definition kv_list :: "string \<Rightarrow> KVNamespace \<Rightarrow> string list" where
  "kv_list pfx kv = take kv_page (sort (filter (\<lambda>k. startsWith k pfx) (map fst kv)))"

record Env =
  GUESTBOOK :: "KVNamespace option"
  CORS_ORIGIN :: "string option"

record Intent =
  intentId :: string
  goal :: string
  mode :: string

text \<open>The lines written with \<open>console.log\<close>.\<close>

datatype LogLine =
    GuestbookLog GuestbookEntry
  | AgentVisitLog Intent nat
  | InvalidTokenLog string

text \<open>What a handler works on: the caller's session object, the bindings and the
  console.\<close>

record Ctx =
  session :: SessionState
  env :: Env
  console :: "LogLine list"

subsection \<open>Requests and responses\<close>

text \<open>A request and a response are kept to what the handlers read and decide: the method,
  the path, four headers and the parsed body of a request; the status and the body of a
  response. The constant member \<open>jsonrpc: '2.0'\<close> and the response headers (CORS, content
  type) are left out.\<close>

datatype RpcId = IdString string | IdNumber int

text \<open>\<open>interface JsonRpcRequest\<close>. Nothing checks \<open>params\<close> against its declared type
  \<open>Record<string, unknown>\<close>: it is any JSON value, or absent.\<close>

record JsonRpcRequest =
  rpc_id :: RpcId
  rpc_method :: string
  rpc_params :: "json option"

text \<open>The result of \<open>request.json()\<close>: it throws, or gives one invocation, a batch, or
  (for the guestbook form) an object of which \<open>name\<close> and \<open>message\<close> are read.\<close>

datatype JsonBody =
    Unparseable exn
  | RpcSingle JsonRpcRequest
  | RpcBatch "JsonRpcRequest list"
  | Submission "json option" "json option"

record Request =
  req_method :: string
  pathname :: string
  url_origin :: string
  hdr_cf_connecting_ip :: "string option"
  hdr_user_agent :: "string option"
  hdr_agent_token :: "string option"
  hdr_origin :: "string option"
  req_json :: JsonBody

text \<open>\<open>request.headers.get(h) || d\<close>: a missing or empty header gives the default.\<close>

definition header_or :: "string option \<Rightarrow> string \<Rightarrow> string" where
  "header_or h d = (case h of Some v \<Rightarrow> if v = [] then d else v | None \<Rightarrow> d)"

record LeaveResult =
  success :: bool
  access_granted :: bool
  result_message :: string

datatype ToolValue =
    ProfileValue json
  | ProjectsValue "Project list"
  | WritingValue "Writing list"
  | ExperienceValue "Experience list"
  | SkillsValue SkillsResult
  | LeaveValue LeaveResult

record DenialData =
  hint :: string
  gated_tool :: "json option"
  free_tools :: "string list"

record ToolError =
  code :: int
  error_message :: string
  error_data :: "DenialData option"

text \<open>The object \<open>{ result?, error? }\<close> that \<open>handleToolCall\<close> resolves to.\<close>

datatype ToolOutcome = Result ToolValue | Error ToolError

text \<open>When the promise of \<open>handleJsonRpc\<close> is rejected: by a throw in its own body
  before its first \<open>await\<close>, so that the promise is rejected when the call returns
  (\<open>AtOnce\<close>); by a throw in the body of \<open>handleToolCall\<close> before anything is awaited from
  the runtime, which the \<open>await\<close> of \<open>handleJsonRpc\<close> passes on one turn of the job queue
  later (\<open>Early\<close>); or by a throw in \<open>leaveMessage\<close>, which waits for the digest and for
  the store (\<open>Late\<close>).\<close>

datatype rejection = AtOnce exn | Early exn | Late exn

fun reason :: "rejection \<Rightarrow> exn" where
  "reason (AtOnce e) = e"
| "reason (Early e) = e"
| "reason (Late e) = e"

text \<open>The text of a content item: \<open>JSON.stringify(error.data || { message })\<close> or
  \<open>JSON.stringify(result, null, 2)\<close>.\<close>

datatype ErrPayload = ErrData DenialData | ErrMessage string

datatype Text = StringifyError ErrPayload | StringifyResult ToolValue

record ContentItem =
  content_type :: string
  content_text :: Text

datatype RpcResult =
    InitializeResult string string string
  | EmptyResult
  | ToolsResult "Tool list"
  | CallResult "ContentItem list" "bool option"

record RpcError =
  rpc_code :: int
  rpc_message :: string
  rpc_data :: "string option"

record JsonRpcResponse =
  resp_id :: "RpcId option"
  resp_result :: "RpcResult option"
  resp_error :: "RpcError option"

record Discovery =
  endpoint :: string
  disc_tools :: "string list"
  disc_free :: "string list"
  disc_gated :: "string list"

datatype Body =
    NoBody
  | TextBody string
  | DiscoveryBody Discovery
  | EntriesBody "GuestbookEntry list" "string option"
  | LeaveBody LeaveResult
  | FailureBody string
  | RpcBody JsonRpcResponse
  | RpcBatchBody "JsonRpcResponse list"
  | InfoPage string

record Response =
  status :: nat
  body :: Body

subsection \<open>\<open>leaveMessage\<close>\<close>

text \<open>The entry is built first (its timestamp is read before \<open>hashIP\<close> is awaited), then
  stored if the \<open>GUESTBOOK\<close> binding exists, then logged, and last the result is built.
  A rejected \<open>put\<close> throws before the log line; the template literal of the result
  converts \<open>params.name\<close> to a string and can throw after the entry is stored and
  logged.\<close>

definition leaveMessage ::
  "Platform \<Rightarrow> json \<Rightarrow> Env \<Rightarrow> string \<Rightarrow> Draw \<Rightarrow> LogLine list
     \<Rightarrow> (exn + LeaveResult) \<times> Env \<times> LogLine list" where
  "leaveMessage pf params e ip d con =
     (let entry = \<lparr> entry_name = get_property params ''name'',
                     entry_message = get_property params ''message'',
                     agent_id = get_property params ''agent_id'',
                     contact = get_property params ''contact'',
                     timestamp = date_iso d,
                     ip_hash = Some (hashIP pf ip) \<rparr>
      in case (case GUESTBOOK e of
                 Some kv \<Rightarrow>
                   (case put_error d of
                      Some err \<Rightarrow> Inl err
                    | None \<Rightarrow>
                        Inr (e\<lparr> GUESTBOOK :=
                               Some (kv_put (entry_key d)
                                       \<lparr> kv_value = entry,
                                         kv_metadata = (entry_name entry, timestamp entry) \<rparr>
                                       kv) \<rparr>))
               | None \<Rightarrow> Inr e) of
           Inl err \<Rightarrow> (Inl err, e, con)
         | Inr e' \<Rightarrow>
             (let con' = con @ [GuestbookLog entry]
              in case template_json (get_property params ''name'') of
                   Inl err \<Rightarrow> (Inl err, e', con')
                 | Inr nm \<Rightarrow>
                     (Inr \<lparr> success = True,
                            access_granted = True,
                            result_message =
                              ''Thanks, '' @ nm
                                @ ''! You now have access to all profile information.'' \<rparr>,
                      e', con')))"

subsection \<open>\<open>getSessionKey\<close>\<close>

definition getSessionKey :: "Request \<Rightarrow> string" where
  "getSessionKey request =
     (let ip = header_or (hdr_cf_connecting_ip request) ''unknown'';
          ua = header_or (hdr_user_agent request) ''unknown''
      in ip @ '':'' @ take 50 ua)"

subsection \<open>\<open>handleToolCall\<close>\<close>

text \<open>The tool name is \<open>toolParams.name\<close>: any JSON value, or \<open>undefined\<close>. \<open>includes\<close> and
  the \<open>case\<close> labels compare it with strings by identity, so only a string is in a list or
  matches a \<open>case\<close>; the message of the \<open>default\<close> case converts it to a string. A throw
  of a tool implementation rejects the promise of \<open>handleToolCall\<close>; after a throw of
  \<open>leaveMessage\<close> the session is not granted.\<close>

definition denial :: "json option \<Rightarrow> ToolError" where
  "denial tool =
     \<lparr> code = - 32001,
       error_message = ''Access required'',
       error_data = Some
         \<lparr> hint = ''Call leave_message() first to introduce yourself, or include an Agent-Token header.'',
           gated_tool = tool,
           free_tools = FREE_TOOLS \<rparr> \<rparr>"

fun array_includes :: "string list \<Rightarrow> json option \<Rightarrow> bool" where
  "array_includes xs (Some (JStr x)) = (x \<in> set xs)"
| "array_includes xs v = False"

definition handleToolCall ::
  "Platform \<Rightarrow> ProfileData \<Rightarrow> json option \<Rightarrow> json \<Rightarrow> Ctx \<Rightarrow> Request \<Rightarrow> Draw
     \<Rightarrow> (rejection + ToolOutcome) \<times> Ctx" where
  "handleToolCall pf pd tool params c request d =
     (if array_includes GATED_TOOLS tool \<and> \<not> hasAccess (session c)
      then (Inr (Error (denial tool)), c)
      else if tool = Some (JStr ''get_profile'') then (Inr (Result (ProfileValue (getProfile pd))), c)
      else if tool = Some (JStr ''get_projects'') then
        (case getProjects pf pd params of
           Inl e \<Rightarrow> (Inl (Early e), c)
         | Inr v \<Rightarrow> (Inr (Result (ProjectsValue v)), c))
      else if tool = Some (JStr ''get_writing'') then
        (case getWriting pf pd params of
           Inl e \<Rightarrow> (Inl (Early e), c)
         | Inr v \<Rightarrow> (Inr (Result (WritingValue v)), c))
      else if tool = Some (JStr ''get_experience'') then
        (Inr (Result (ExperienceValue (getExperience pd params))), c)
      else if tool = Some (JStr ''get_skills'') then
        (case getSkills pd params of
           Inl e \<Rightarrow> (Inl (Early e), c)
         | Inr v \<Rightarrow> (Inr (Result (SkillsValue v)), c))
      else if tool = Some (JStr ''leave_message'') then
        (let ip = header_or (hdr_cf_connecting_ip request) ''unknown'';
             (r, e', con') = leaveMessage pf params (env c) ip d (console c)
         in case r of
              Inl err \<Rightarrow> (Inl (Late err), c\<lparr> env := e', console := con' \<rparr>)
            | Inr v \<Rightarrow>
                (Inr (Result (LeaveValue v)),
                 c\<lparr> session := (session c)\<lparr> hasAccess := True \<rparr>, env := e',
                    console := con' \<rparr>))
      else
        (case template_json tool of
           Inl e \<Rightarrow> (Inl (Early e), c)
         | Inr nm \<Rightarrow>
             (Inr (Error \<lparr> code = - 32601,
                           error_message = ''Unknown tool: '' @ nm,
                           error_data = None \<rparr>), c)))"

subsection \<open>\<open>handleJsonRpc\<close>\<close>

definition ok_response :: "RpcId \<Rightarrow> RpcResult \<Rightarrow> JsonRpcResponse" where
  "ok_response i r = \<lparr> resp_id = Some i, resp_result = Some r, resp_error = None \<rparr>"

text \<open>\<open>toolParams.arguments || {}\<close>: a missing or falsy argument object is the empty
  object.\<close>

definition arguments_or_empty :: "json option \<Rightarrow> json" where
  "arguments_or_empty a = (case a of Some v \<Rightarrow> if truthy (Some v) then v else JObj [] | None \<Rightarrow> JObj [])"

text \<open>\<open>tools/call\<close> reads \<open>toolParams.name\<close> and \<open>toolParams.arguments\<close>: when \<open>params\<close> is
  absent or \<open>null\<close> the first read throws a \<open>TypeError\<close>, which leaves \<open>handleJsonRpc\<close> as
  a rejected promise.\<close>

fun tool_params :: "json option \<Rightarrow> exn + json option \<times> json" where
  "tool_params None = Inl (JsError ''Cannot read properties of undefined (reading 'name')'')"
| "tool_params (Some JNull) = Inl (JsError ''Cannot read properties of null (reading 'name')'')"
| "tool_params (Some toolParams) =
     Inr (get_property toolParams ''name'',
          arguments_or_empty (get_property toolParams ''arguments''))"

definition handleJsonRpc ::
  "Platform \<Rightarrow> ProfileData \<Rightarrow> JsonRpcRequest \<Rightarrow> Ctx \<Rightarrow> Request \<Rightarrow> Draw
     \<Rightarrow> (rejection + JsonRpcResponse) \<times> Ctx" where
  "handleJsonRpc pf pd rpc c request d =
     (let i = rpc_id rpc; m = rpc_method rpc in
      if m = ''initialize'' then
        (Inr (ok_response i (InitializeResult ''2024-11-05'' ''resume-mcp'' ''1.0.0'')), c)
      else if m = ''notifications/initialized'' then (Inr (ok_response i EmptyResult), c)
      else if m = ''tools/list'' then (Inr (ok_response i (ToolsResult TOOLS)), c)
      else if m = ''tools/call'' then
        (case tool_params (rpc_params rpc) of
           Inl e \<Rightarrow> (Inl (AtOnce e), c)
         | Inr (tool, arguments) \<Rightarrow>
             (let (toolResult, c') = handleToolCall pf pd tool arguments c request d
              in case toolResult of
                   Inl rj \<Rightarrow> (Inl rj, c')
                 | Inr (Error err) \<Rightarrow>
                     (Inr (ok_response i
                        (CallResult
                           [\<lparr> content_type = ''text'',
                              content_text = StringifyError
                                (case error_data err of
                                   Some dat \<Rightarrow> ErrData dat
                                 | None \<Rightarrow> ErrMessage (error_message err)) \<rparr>]
                           (Some True))), c')
                 | Inr (Result v) \<Rightarrow>
                     (Inr (ok_response i
                        (CallResult
                           [\<lparr> content_type = ''text'', content_text = StringifyResult v \<rparr>]
                           None)), c')))
      else if m = ''ping'' then (Inr (ok_response i EmptyResult), c)
      else
        (Inr \<lparr> resp_id = Some i, resp_result = None,
               resp_error = Some \<lparr> rpc_code = - 32601,
                                   rpc_message = ''Method not found: '' @ m,
                                   rpc_data = None \<rparr> \<rparr>, c))"

subsection \<open>\<open>fetch\<close>\<close>

text \<open>The state that outlives a request: the module-level \<open>sessionCache\<close>, the bindings
  (with the contents of the guestbook namespace) and the console.\<close>

record Server =
  sessionCache :: "string \<rightharpoonup> SessionState"
  bindings :: Env
  log_lines :: "LogLine list"

text \<open>What one request reads from its surroundings: the time of the agent-visit log
  line, the draws of the invocation at each position of the body, and whether reading
  the guestbook throws (a rejected \<open>list\<close> or \<open>get\<close>, a stored text that does not parse).\<close>

record Moment =
  visit_time :: nat
  draws :: "nat \<Rightarrow> Draw"
  read_error :: "exn option"

text \<open>The guestbook listing: the loop over \<open>list.keys\<close>, pushing each stored entry without
  its \<open>ip_hash\<close>, then the sort by descending timestamp (\<open>Array.prototype.sort\<close> is
  stable). A throw inside the \<open>try\<close> block is answered with status 500 and no entries.\<close>

fun collect_entries :: "KVNamespace \<Rightarrow> string list \<Rightarrow> GuestbookEntry list \<Rightarrow> GuestbookEntry list" where
  "collect_entries kv [] entries = entries"
| "collect_entries kv (k # ks) entries =
     (case kv_get kv k of
        Some v \<Rightarrow> collect_entries kv ks (entries @ [(kv_value v)\<lparr> ip_hash := None \<rparr>])
      | None \<Rightarrow> collect_entries kv ks entries)"

definition newest_first :: "GuestbookEntry list \<Rightarrow> GuestbookEntry list" where
  "newest_first entries = sort_key (\<lambda>e. - int (timestamp e)) entries"

definition fetch_guestbook_get :: "Env \<Rightarrow> exn option \<Rightarrow> Response" where
  "fetch_guestbook_get e fault =
     (case GUESTBOOK e of
        None \<Rightarrow> \<lparr> status = 200, body = EntriesBody [] (Some ''Guestbook not configured'') \<rparr>
      | Some kv \<Rightarrow>
          (case fault of
             Some err \<Rightarrow>
               \<lparr> status = 500, body = EntriesBody [] (Some ''Failed to fetch entries'') \<rparr>
           | None \<Rightarrow>
               (let keys = kv_list ''entry:'' kv;
                    entries = collect_entries kv keys []
                in \<lparr> status = 200, body = EntriesBody (newest_first entries) None \<rparr>)))"

text \<open>A member \<open>k: v\<close> of an object literal; a member whose value is \<open>undefined\<close> reads as
  an absent one.\<close>

definition literal_member :: "string \<Rightarrow> json option \<Rightarrow> (string \<times> json) list" where
  "literal_member k v = (case v of Some x \<Rightarrow> [(k, x)] | None \<Rightarrow> [])"

text \<open>The guestbook form. A throw of \<open>request.json()\<close> or of \<open>leaveMessage\<close> is caught and
  answered with status 400; what \<open>leaveMessage\<close> stored and logged before it threw
  stays.\<close>

definition fetch_guestbook_post ::
  "Platform \<Rightarrow> Request \<Rightarrow> Moment \<Rightarrow> Server \<Rightarrow> Response \<times> Server" where
  "fetch_guestbook_post pf request mom srv =
     (let required = \<lparr> status = 400, body = FailureBody ''Name and message are required'' \<rparr>;
          invalid = \<lparr> status = 400, body = FailureBody ''Invalid request'' \<rparr>
      in case req_json request of
           Unparseable e \<Rightarrow> (invalid, srv)
         | RpcSingle rpc \<Rightarrow> (required, srv)
         | RpcBatch rpcs \<Rightarrow> (required, srv)
         | Submission nm msg \<Rightarrow>
             if \<not> truthy nm \<or> \<not> truthy msg then (required, srv)
             else
               (let ip = header_or (hdr_cf_connecting_ip request) ''unknown'';
                    (r, e', con') =
                       leaveMessage pf (JObj (literal_member ''name'' nm @ literal_member ''message'' msg))
                         (bindings srv) ip (draws mom 0) (log_lines srv);
                    srv' = srv\<lparr> bindings := e', log_lines := con' \<rparr>
                in case r of
                     Inl err \<Rightarrow> (invalid, srv')
                   | Inr v \<Rightarrow> (\<lparr> status = 200, body = LeaveBody v \<rparr>, srv')))"

text \<open>The agent-token block of the MCP endpoint. The decoder and the intent reader come
  from the package \<open>@agent-tokens/core\<close>; each may throw, and the reader may find no
  intent.\<close>

definition agent_token_step ::
  "(string \<Rightarrow> exn + 'd) \<Rightarrow> ('d \<Rightarrow> exn + Intent option) \<Rightarrow> nat \<Rightarrow> string option
     \<Rightarrow> SessionState \<Rightarrow> LogLine list \<Rightarrow> SessionState \<times> LogLine list" where
  "agent_token_step decodeAgentTokenV0 getIntentV1 now tok s con =
     (case tok of
        None \<Rightarrow> (s, con)
      | Some t \<Rightarrow>
          if \<not> truthy_str (Some t) then (s, con)
          else
            (case decodeAgentTokenV0 t of
               Inl e \<Rightarrow> (s, con @ [InvalidTokenLog (exn_message e)])
             | Inr decoded \<Rightarrow>
                 (case getIntentV1 decoded of
                    Inl e \<Rightarrow> (s, con @ [InvalidTokenLog (exn_message e)])
                  | Inr None \<Rightarrow> (s, con)
                  | Inr (Some intent) \<Rightarrow>
                      (s\<lparr> hasAccess := True, agentToken := Some t \<rparr>,
                       con @ [AgentVisitLog intent now]))))"

text \<open>\<open>Promise.all(body.map(rpc => handleJsonRpc(rpc, session, env, request)))\<close>.
  \<open>map\<close> starts every handler before any of them resumes after an \<open>await\<close>. A handler
  reads \<open>session.hasAccess\<close> (the gate of \<open>handleToolCall\<close>) before its first \<open>await\<close>
  and writes it (\<open>leave_message\<close>) after one, so every entry of a batch is gated on the
  session as the batch found it, and the writes reach the one shared session object
  afterwards.

  \<open>started\<close> is what each handler comes to on the state the batch starts from. A
  rejection that needs no waiting rejects \<open>Promise.all\<close> before any \<open>leaveMessage\<close> has
  got its digest: the promises rejected at once are seen first, in the order of the
  entries, then the early ones. The request is then answered from the \<open>catch\<close> block
  and the runtime abandons the handlers that still wait, with what they would have
  stored, logged and granted.\<close>

definition started ::
  "Platform \<Rightarrow> ProfileData \<Rightarrow> Request \<Rightarrow> (nat \<Rightarrow> Draw) \<Rightarrow> JsonRpcRequest list \<Rightarrow> Ctx
     \<Rightarrow> (rejection + JsonRpcResponse) list" where
  "started pf pd request ds rpcs c =
     map (\<lambda>(n, rpc). fst (handleJsonRpc pf pd rpc c request (ds n))) (enumerate 0 rpcs)"

fun at_once :: "rejection + 'a \<Rightarrow> exn option" where
  "at_once (Inl (AtOnce e)) = Some e"
| "at_once r = None"

fun early :: "rejection + 'a \<Rightarrow> exn option" where
  "early (Inl (Early e)) = Some e"
| "early r = None"

fun first_some :: "'a option list \<Rightarrow> 'a option" where
  "first_some [] = None"
| "first_some (Some x # xs) = Some x"
| "first_some (None # xs) = first_some xs"

definition rejected_unawaited :: "(rejection + 'a) list \<Rightarrow> exn option" where
  "rejected_unawaited rs =
     (case first_some (map at_once rs) of
        Some e \<Rightarrow> Some e
      | None \<Rightarrow> first_some (map early rs))"

text \<open>When no handler is rejected without waiting, the handlers that wait are resumed
  in the order of the entries, each taking its stores and log lines, until one of them
  is rejected: that rejection rejects \<open>Promise.all\<close>, and the handlers of the later
  entries are abandoned.\<close>

fun run_batch ::
  "Platform \<Rightarrow> ProfileData \<Rightarrow> Request \<Rightarrow> SessionState \<Rightarrow> (nat \<Rightarrow> Draw) \<Rightarrow> nat
     \<Rightarrow> JsonRpcRequest list \<Rightarrow> Ctx \<Rightarrow> (exn + JsonRpcResponse list) \<times> Ctx" where
  "run_batch pf pd request s0 ds n [] c = (Inr [], c)"
| "run_batch pf pd request s0 ds n (rpc # rest) c =
     (let (r, c1) = handleJsonRpc pf pd rpc (c\<lparr> session := s0 \<rparr>) request (ds n);
          c2 = c1\<lparr> session := (if hasAccess (session c1) then session c1 else session c) \<rparr>
      in case r of
           Inl rj \<Rightarrow> (Inl (reason rj), c2)
         | Inr response \<Rightarrow>
             (let (rs, c3) = run_batch pf pd request s0 ds (Suc n) rest c2
              in case rs of
                   Inl e \<Rightarrow> (Inl e, c3)
                 | Inr responses \<Rightarrow> (Inr (response # responses), c3)))"

definition parse_error :: "exn \<Rightarrow> Response" where
  "parse_error e =
     \<lparr> status = 400,
       body = RpcBody
         \<lparr> resp_id = None, resp_result = None,
           resp_error = Some \<lparr> rpc_code = - 32700, rpc_message = ''Parse error'',
                               rpc_data = Some (exn_message e) \<rparr> \<rparr> \<rparr>"

text \<open>The MCP endpoint, after the agent-token block: the body is parsed and dispatched
  on the context \<open>c\<close> that holds the caller's session. The session object is the one held
  by \<open>sessionCache\<close>, so what the handlers write to it is written back under the caller's
  key. A body that is an object without \<open>id\<close> and \<open>method\<close> (the guestbook form) falls to
  the \<open>default\<close> case of \<open>handleJsonRpc\<close> with both \<open>undefined\<close>.\<close>

definition mcp_dispatch ::
  "Platform \<Rightarrow> ProfileData \<Rightarrow> Request \<Rightarrow> Moment \<Rightarrow> Server \<Rightarrow> Ctx \<Rightarrow> Response \<times> Server" where
  "mcp_dispatch pf pd request mom srv c =
     (let store = (\<lambda>c'. srv\<lparr> sessionCache :=
                                (sessionCache srv)(getSessionKey request \<mapsto> session c'),
                              bindings := env c', log_lines := console c' \<rparr>)
      in case req_json request of
           Unparseable e \<Rightarrow> (parse_error e, store c)
         | RpcBatch rpcs \<Rightarrow>
             (case rejected_unawaited (started pf pd request (draws mom) rpcs c) of
                Some e \<Rightarrow> (parse_error e, store c)
              | None \<Rightarrow>
                  (let (rs, c') = run_batch pf pd request (session c) (draws mom) 0 rpcs c
                   in case rs of
                        Inl e \<Rightarrow> (parse_error e, store c')
                      | Inr responses \<Rightarrow>
                          (\<lparr> status = 200, body = RpcBatchBody responses \<rparr>, store c')))
         | RpcSingle rpc \<Rightarrow>
             (let (r, c') = handleJsonRpc pf pd rpc c request (draws mom 0)
              in case r of
                   Inl rj \<Rightarrow> (parse_error (reason rj), store c')
                 | Inr response \<Rightarrow> (\<lparr> status = 200, body = RpcBody response \<rparr>, store c'))
         | Submission nm msg \<Rightarrow>
             (\<lparr> status = 200,
                body = RpcBody
                  \<lparr> resp_id = None, resp_result = None,
                    resp_error = Some \<lparr> rpc_code = - 32601,
                                        rpc_message = ''Method not found: undefined'',
                                        rpc_data = None \<rparr> \<rparr> \<rparr>, store c))"

text \<open>The session the endpoint gets from \<open>sessionCache\<close> or creates.\<close>

definition loaded :: "Server \<Rightarrow> Request \<Rightarrow> SessionState" where
  "loaded srv request =
     (case sessionCache srv (getSessionKey request) of
        Some s \<Rightarrow> s
      | None \<Rightarrow> \<lparr> hasAccess = False, agentToken = None \<rparr>)"

text \<open>The MCP endpoint: the session is got or created, the agent-token block runs, then
  the body is dispatched.\<close>

definition fetch_mcp ::
  "Platform \<Rightarrow> (string \<Rightarrow> exn + 'd) \<Rightarrow> ('d \<Rightarrow> exn + Intent option)
     \<Rightarrow> ProfileData \<Rightarrow> Request \<Rightarrow> Moment \<Rightarrow> Server \<Rightarrow> Response \<times> Server" where
  "fetch_mcp pf decodeAgentTokenV0 getIntentV1 pd request mom srv =
     (let agentToken = hdr_agent_token request;
          s = loaded srv request;
          (s1, con1) = agent_token_step decodeAgentTokenV0 getIntentV1 (visit_time mom)
                         agentToken s (log_lines srv)
      in mcp_dispatch pf pd request mom srv
           \<lparr> session = s1, env = bindings srv, console = con1 \<rparr>)"

definition fetch ::
  "Platform \<Rightarrow> (string \<Rightarrow> exn + 'd) \<Rightarrow> ('d \<Rightarrow> exn + Intent option)
     \<Rightarrow> ProfileData \<Rightarrow> Request \<Rightarrow> Moment \<Rightarrow> Server \<Rightarrow> Response \<times> Server" where
  "fetch pf decodeAgentTokenV0 getIntentV1 pd request mom srv =
     (if req_method request = ''OPTIONS'' then (\<lparr> status = 200, body = NoBody \<rparr>, srv)
      else if pathname request = ''/.well-known/mcp.json'' \<or> pathname request = ''/mcp.json'' then
        (\<lparr> status = 200,
           body = DiscoveryBody
             \<lparr> endpoint = url_origin request, disc_tools = map tool_name TOOLS,
               disc_free = FREE_TOOLS, disc_gated = GATED_TOOLS \<rparr> \<rparr>, srv)
      else if pathname request = ''/health'' then (\<lparr> status = 200, body = TextBody ''ok'' \<rparr>, srv)
      else if pathname request = ''/api/guestbook'' \<and> req_method request = ''GET'' then
        (fetch_guestbook_get (bindings srv) (read_error mom), srv)
      else if pathname request = ''/api/guestbook'' \<and> req_method request = ''POST'' then
        fetch_guestbook_post pf request mom srv
      else if req_method request = ''POST'' then
        fetch_mcp pf decodeAgentTokenV0 getIntentV1 pd request mom srv
      else (\<lparr> status = 200, body = InfoPage (url_origin request) \<rparr>, srv))"

text \<open>A sequence of requests, each with its own draws, served one after the other.\<close>

fun serve ::
  "Platform \<Rightarrow> (string \<Rightarrow> exn + 'd) \<Rightarrow> ('d \<Rightarrow> exn + Intent option)
     \<Rightarrow> ProfileData \<Rightarrow> (Request \<times> Moment) list \<Rightarrow> Server \<Rightarrow> Server" where
  "serve pf dec gi pd [] srv = srv"
| "serve pf dec gi pd ((request, mom) # rest) srv =
     serve pf dec gi pd rest (snd (fetch pf dec gi pd request mom srv))"

subsection \<open>Reference readings of the specification\<close>

text \<open>The stored guestbook entries, in the order of the store; none when the binding is
  missing.\<close>

definition guestbook_entries :: "Env \<Rightarrow> GuestbookEntry list" where
  "guestbook_entries e = (case GUESTBOOK e of Some kv \<Rightarrow> map (kv_value \<circ> snd) kv | None \<Rightarrow> [])"

text \<open>The entry \<open>leaveMessage\<close> builds from its arguments, and the payload it returns for
  the name \<open>n\<close>, named so that the statements below can refer to them.\<close>

definition new_entry :: "Platform \<Rightarrow> json \<Rightarrow> Request \<Rightarrow> Draw \<Rightarrow> GuestbookEntry" where
  "new_entry pf params request d =
     \<lparr> entry_name = get_property params ''name'',
       entry_message = get_property params ''message'',
       agent_id = get_property params ''agent_id'',
       contact = get_property params ''contact'',
       timestamp = date_iso d,
       ip_hash = Some (hashIP pf (header_or (hdr_cf_connecting_ip request) ''unknown'')) \<rparr>"

definition thanks :: "string \<Rightarrow> LeaveResult" where
  "thanks n =
     \<lparr> success = True, access_granted = True,
       result_message = ''Thanks, '' @ n @ ''! You now have access to all profile information.'' \<rparr>"

text \<open>The response that carries the result \<open>v\<close> of a tool for the request \<open>i\<close>.\<close>

definition tool_response :: "RpcId \<Rightarrow> ToolValue \<Rightarrow> JsonRpcResponse" where
  "tool_response i v =
     ok_response i
       (CallResult [\<lparr> content_type = ''text'', content_text = StringifyResult v \<rparr>] None)"

text \<open>The filters as the specification words them: containment of the tag compared
  without regard to case, and the first \<open>n\<close> entries.\<close>

definition spec_projects_by_tag :: "Platform \<Rightarrow> ProfileData \<Rightarrow> string \<Rightarrow> Project list" where
  "spec_projects_by_tag pf pd x =
     filter (\<lambda>p. \<exists>t \<in> set (tags p). toLowerCase pf t = toLowerCase pf x) (projects pd)"

definition spec_writing_limit :: "ProfileData \<Rightarrow> int \<Rightarrow> Writing list" where
  "spec_writing_limit pd n = take (nat n) (writing pd)"

text \<open>A response is a denial when its result carries the access-required data.\<close>

fun denial_text :: "Text \<Rightarrow> bool" where
  "denial_text (StringifyError (ErrData dd)) = True"
| "denial_text (StringifyError (ErrMessage m)) = False"
| "denial_text (StringifyResult v) = False"

fun denial_result :: "RpcResult \<Rightarrow> bool" where
  "denial_result (CallResult items flag) = list_ex (\<lambda>i. denial_text (content_text i)) items"
| "denial_result (InitializeResult a b c) = False"
| "denial_result EmptyResult = False"
| "denial_result (ToolsResult ts) = False"

definition is_denial :: "JsonRpcResponse \<Rightarrow> bool" where
  "is_denial r = (case resp_result r of Some res \<Rightarrow> denial_result res | None \<Rightarrow> False)"

text \<open>A response reports the method-not-found class when it has an \<open>error\<close> member with the
  code \<open>-32601\<close>.\<close>

definition method_not_found :: "JsonRpcResponse \<Rightarrow> bool" where
  "method_not_found r = (case resp_error r of Some e \<Rightarrow> rpc_code e = - 32601 | None \<Rightarrow> False)"

text \<open>The envelope \<open>handleJsonRpc\<close> puts around what \<open>handleToolCall\<close> comes to.\<close>

definition enveloped :: "RpcId \<Rightarrow> rejection + ToolOutcome \<Rightarrow> rejection + JsonRpcResponse" where
  "enveloped i toolResult =
     (case toolResult of
        Inl rj \<Rightarrow> Inl rj
      | Inr (Error err) \<Rightarrow>
          Inr (ok_response i
            (CallResult
               [\<lparr> content_type = ''text'',
                  content_text = StringifyError
                    (case error_data err of
                       Some dat \<Rightarrow> ErrData dat
                     | None \<Rightarrow> ErrMessage (error_message err)) \<rparr>]
               (Some True)))
      | Inr (Result v) \<Rightarrow> Inr (tool_response i v))"

text \<open>The context on which the handlers of a request to the MCP endpoint start: the
  caller's session after the agent-token block, the bindings and the console.\<close>

definition started_on ::
  "(string \<Rightarrow> exn + 'd) \<Rightarrow> ('d \<Rightarrow> exn + Intent option) \<Rightarrow> Request \<Rightarrow> Moment \<Rightarrow> Server \<Rightarrow> Ctx" where
  "started_on dec gi request mom srv =
     \<lparr> session = fst (agent_token_step dec gi (visit_time mom) (hdr_agent_token request)
                       (loaded srv request) (log_lines srv)),
       env = bindings srv,
       console = snd (agent_token_step dec gi (visit_time mom) (hdr_agent_token request)
                       (loaded srv request) (log_lines srv)) \<rparr>"

text \<open>The handler of an invocation settles when its promise is fulfilled, not rejected.\<close>

definition settles ::
  "Platform \<Rightarrow> ProfileData \<Rightarrow> JsonRpcRequest \<Rightarrow> Ctx \<Rightarrow> Request \<Rightarrow> Draw \<Rightarrow> bool" where
  "settles pf pd rpc c request d =
     (case fst (handleJsonRpc pf pd rpc c request d) of Inl rj \<Rightarrow> False | Inr r \<Rightarrow> True)"

text \<open>The arguments of an invocation that is a \<open>tools/call\<close> of \<open>leave_message\<close>; the
  entries that the \<open>leave_message\<close> calls of a batch build, in the order of the batch, and
  the keys they are stored under.\<close>

definition leave_args :: "JsonRpcRequest \<Rightarrow> json option" where
  "leave_args rpc =
     (if rpc_method rpc = ''tools/call''
      then (case tool_params (rpc_params rpc) of
              Inl e \<Rightarrow> None
            | Inr (tool, arguments) \<Rightarrow>
                if tool = Some (JStr ''leave_message'') then Some arguments else None)
      else None)"



text \<open>An invocation conforms to the declared types when, if it is a \<open>tools/call\<close>, its
  \<open>params\<close> can be read, the tool name is a string, and the arguments \<open>tag\<close>, \<open>limit\<close>,
  \<open>category\<close> and \<open>name\<close>, where present, have the types the catalog declares for
  them.\<close>

fun typed_as :: "string \<Rightarrow> json option \<Rightarrow> bool" where
  "typed_as ty None = True"
| "typed_as ty (Some (JStr s)) = (ty = ''string'')"
| "typed_as ty (Some (JNum n)) = (ty = ''number'')"
| "typed_as ty (Some (JBool b)) = (ty = ''boolean'')"
| "typed_as ty (Some JNull) = False"
| "typed_as ty (Some (JArr xs)) = False"
| "typed_as ty (Some (JObj obj)) = False"

definition conforming :: "JsonRpcRequest \<Rightarrow> bool" where
  "conforming rpc =
     (rpc_method rpc = ''tools/call'' \<longrightarrow>
        (case tool_params (rpc_params rpc) of
           Inl e \<Rightarrow> False
         | Inr (tool, arguments) \<Rightarrow>
             tool \<noteq> None \<and> typed_as ''string'' tool
             \<and> typed_as ''string'' (get_property arguments ''tag'')
             \<and> typed_as ''number'' (get_property arguments ''limit'')
             \<and> typed_as ''string'' (get_property arguments ''category'')
             \<and> typed_as ''string'' (get_property arguments ''name'')))"

subsection \<open>Sample data for the closed instances\<close>

definition sample_profile :: ProfileData where
  "sample_profile =
     \<lparr> profile = JObj [(''name'', JStr ''Ada'')],
       projects =
         [\<lparr> tags = [''ai'', ''mcp''], featured = True, project_rest = JStr ''p1'' \<rparr>,
          \<lparr> tags = [''Rust''], featured = False, project_rest = JStr ''p2'' \<rparr>],
       writing =
         [\<lparr> platform = ''blog'', writing_rest = JStr ''w1'' \<rparr>,
          \<lparr> platform = ''devto'', writing_rest = JStr ''w2'' \<rparr>,
          \<lparr> platform = ''blog'', writing_rest = JStr ''w3'' \<rparr>],
       experience =
         [\<lparr> current = True, experience_rest = JStr ''e1'' \<rparr>,
          \<lparr> current = False, experience_rest = JStr ''e2'' \<rparr>],
       skills =
         [(''languages'', JArr [JStr ''TypeScript'']),
          (''frameworks'', JArr [JStr ''React''])] \<rparr>"

text \<open>The same document with every tag in lower case.\<close>

definition lower_profile :: ProfileData where
  "lower_profile =
     sample_profile\<lparr> projects :=
       [\<lparr> tags = [''ai'', ''mcp''], featured = True, project_rest = JStr ''p1'' \<rparr>,
        \<lparr> tags = [''rust''], featured = False, project_rest = JStr ''p2'' \<rparr>] \<rparr>"

text \<open>A stand-in for the platform: a fixed digest, the lower-casing of the letters
  \<open>A\<close> to \<open>Z\<close>, and the reading of a string of decimal digits.\<close>

definition sample_sha :: "string \<Rightarrow> 8 word list" where
  "sample_sha s = [0x1f, 0xa0, 3, 4, 5, 6, 7, 8, 9, 10]"

definition lower_char :: "char \<Rightarrow> char" where
  "lower_char c =
     (case map_of (zip ''ABCDEFGHIJKLMNOPQRSTUVWXYZ'' ''abcdefghijklmnopqrstuvwxyz'') c of
        Some l \<Rightarrow> l
      | None \<Rightarrow> c)"

definition ascii_lower :: "string \<Rightarrow> string" where
  "ascii_lower s = map lower_char s"

definition digit_value :: "char \<Rightarrow> int option" where
  "digit_value c = map_of (zip ''0123456789'' [0, 1, 2, 3, 4, 5, 6, 7, 8, 9]) c"

fun decimal :: "string \<Rightarrow> int \<Rightarrow> int option" where
  "decimal [] acc = Some acc"
| "decimal (c # cs) acc =
     (case digit_value c of Some v \<Rightarrow> decimal cs (10 * acc + v) | None \<Rightarrow> None)"

definition sample_platform :: Platform where
  "sample_platform =
     \<lparr> subtle_digest = sample_sha, toLowerCase = ascii_lower,
       StringToNumber = (\<lambda>s. decimal s 0) \<rparr>"

definition sample_request :: Request where
  "sample_request =
     \<lparr> req_method = ''POST'', pathname = ''/'', url_origin = ''https://mcp.example.dev'',
       hdr_cf_connecting_ip = Some ''203.0.113.7'', hdr_user_agent = Some ''agent/1.0'',
       hdr_agent_token = None, hdr_origin = None,
       req_json = Unparseable NonError \<rparr>"

definition draw1 :: Draw where
  "draw1 = \<lparr> date_iso = 1700000000000, date_now = 1700000000001,
      uuid = ''3b241101-e2bb-4255-8caf-4136c566a962'', put_error = None \<rparr>"

definition draw2 :: Draw where
  "draw2 = \<lparr> date_iso = 1700000000500, date_now = 1700000000502,
      uuid = ''9f1c2d3e-0a4b-4c5d-9e6f-708192a3b4c5'', put_error = None \<rparr>"

definition sample_draws :: "nat \<Rightarrow> Draw" where
  "sample_draws n = (if n = 0 then draw1 else draw2)"

definition sample_moment :: Moment where
  "sample_moment = \<lparr> visit_time = 1699999999999, draws = sample_draws, read_error = None \<rparr>"



definition fresh_ctx :: "KVNamespace option \<Rightarrow> Ctx" where
  "fresh_ctx g =
     \<lparr> session = \<lparr> hasAccess = False, agentToken = None \<rparr>,
       env = \<lparr> GUESTBOOK = g, CORS_ORIGIN = None \<rparr>,
       console = [] \<rparr>"

definition ada :: json where
  "ada = JObj [(''name'', JStr ''Ada''), (''message'', JStr ''hi'')]"

text \<open>A store with two guestbook entries and one foreign key, and the listing expected
  from it.\<close>

definition sample_store :: KVNamespace where
  "sample_store =
     [(''entry:1700000000001:aaa'',
       \<lparr> kv_value = \<lparr> entry_name = Some (JStr ''Ada''), entry_message = Some (JStr ''hi''),
                      agent_id = None, contact = None, timestamp = 1700000000000,
                      ip_hash = Some ''1fa0030405060708'' \<rparr>,
         kv_metadata = (Some (JStr ''Ada''), 1700000000000) \<rparr>),
      (''config'',
       \<lparr> kv_value = \<lparr> entry_name = None, entry_message = None, agent_id = None,
                      contact = None, timestamp = 5, ip_hash = None \<rparr>,
         kv_metadata = (None, 5) \<rparr>),
      (''entry:1700000000502:bbb'',
       \<lparr> kv_value = \<lparr> entry_name = Some (JStr ''Bob''), entry_message = Some (JStr ''yo''),
                      agent_id = Some (JStr ''bot''), contact = None,
                      timestamp = 1700000000500,
                      ip_hash = Some ''00ff030405060708'' \<rparr>,
         kv_metadata = (Some (JStr ''Bob''), 1700000000500) \<rparr>)]"

definition sample_public :: "GuestbookEntry list" where
  "sample_public =
     [\<lparr> entry_name = Some (JStr ''Bob''), entry_message = Some (JStr ''yo''),
        agent_id = Some (JStr ''bot''), contact = None, timestamp = 1700000000500,
        ip_hash = None \<rparr>,
      \<lparr> entry_name = Some (JStr ''Ada''), entry_message = Some (JStr ''hi''),
        agent_id = None, contact = None, timestamp = 1700000000000, ip_hash = None \<rparr>]"

text \<open>A stand-in for the agent-token library: one token that decodes to an intent, one
  that decodes without an intent, and everything else fails to decode.\<close>

definition sample_decode :: "string \<Rightarrow> exn + nat" where
  "sample_decode t =
     (if t = ''good-token'' then Inr 0
      else if t = ''empty-token'' then Inr 1
      else Inl (JsError ''Invalid token format''))"

definition sample_intent :: "nat \<Rightarrow> exn + Intent option" where
  "sample_intent n =
     (if n = 0 then Inr (Some \<lparr> intentId = ''recruiting-scan'',
                                goal = ''Find candidates for senior engineering role'',
                                mode = ''read-only'' \<rparr>)
      else Inr None)"

definition empty_server :: Server where
  "empty_server =
     \<lparr> sessionCache = Map.empty,
       bindings = \<lparr> GUESTBOOK = Some [], CORS_ORIGIN = None \<rparr>,
       log_lines = [] \<rparr>"

text \<open>The invocation \<open>tools/call\<close> of the tool \<open>tool\<close> with the arguments \<open>args\<close>, and with
  none.\<close>

definition call_with :: "int \<Rightarrow> string \<Rightarrow> json \<Rightarrow> JsonRpcRequest" where
  "call_with n tool args =
     \<lparr> rpc_id = IdNumber n, rpc_method = ''tools/call'',
       rpc_params = Some (JObj [(''name'', JStr tool), (''arguments'', args)]) \<rparr>"

definition call :: "int \<Rightarrow> string \<Rightarrow> JsonRpcRequest" where
  "call n tool =
     \<lparr> rpc_id = IdNumber n, rpc_method = ''tools/call'',
       rpc_params = Some (JObj [(''name'', JStr tool)]) \<rparr>"

text \<open>A server that already holds a granted session for the sample caller, and three
  requests from that caller: a gated call, a request with an undecodable token and no
  parseable body, and a guestbook listing.\<close>

definition granted_server :: Server where
  "granted_server =
     empty_server\<lparr> sessionCache :=
       [''203.0.113.7:agent/1.0'' \<mapsto> \<lparr> hasAccess = True, agentToken = None \<rparr>] \<rparr>"

definition sample_traffic :: "(Request \<times> Moment) list" where
  "sample_traffic =
     [(sample_request\<lparr> req_json := RpcSingle (call 1 ''get_skills'') \<rparr>, sample_moment),
      (sample_request\<lparr> hdr_agent_token := Some ''bad'' \<rparr>, sample_moment),
      (sample_request\<lparr> req_method := ''GET'', pathname := ''/api/guestbook'' \<rparr>, sample_moment)]"

text \<open>A gated call that carries the agent token \<open>t\<close>, a batch of three calls whose second
  names no tool of the catalog, a batch whose second entry is a \<open>tools/call\<close> without
  \<open>params\<close>, and a batch whose second entry asks for the projects with the tag \<open>5\<close>.\<close>

definition token_request :: "string \<Rightarrow> Request" where
  "token_request t =
     sample_request\<lparr> hdr_agent_token := Some t,
                     req_json := RpcSingle (call 5 ''get_experience'') \<rparr>"

definition sample_batch :: "JsonRpcRequest list" where
  "sample_batch = [call 1 ''get_profile'', call 2 ''get_resume'', call 3 ''get_writing'']"

definition broken_batch :: "JsonRpcRequest list" where
  "broken_batch =
     [\<lparr> rpc_id = IdNumber 1, rpc_method = ''ping'', rpc_params = None \<rparr>,
      \<lparr> rpc_id = IdNumber 2, rpc_method = ''tools/call'', rpc_params = None \<rparr>]"

definition thrown_batch :: "JsonRpcRequest list" where
  "thrown_batch =
     [call_with 1 ''leave_message'' ada,
      call_with 2 ''get_projects'' (JObj [(''tag'', JNum 5)])]"






text \<open>The entries of a listing response; a store of 1001 guestbook entries; the request
  for the listing; the sample server holding a given store.\<close>

definition listed :: "Response \<Rightarrow> GuestbookEntry list" where
  "listed r = (case body r of EntriesBody es err \<Rightarrow> es | _ \<Rightarrow> [])"

definition full_item :: "nat \<Rightarrow> string \<times> KVItem" where
  "full_item i =
     (''entry:'' @ show_nat (1700000000000 + i) @ '':id'',
      \<lparr> kv_value = \<lparr> entry_name = Some (JStr ''Ada''), entry_message = Some (JStr ''hi''),
                     agent_id = None, contact = None, timestamp = 1700000000000 + i,
                     ip_hash = Some ''1fa0030405060708'' \<rparr>,
        kv_metadata = (Some (JStr ''Ada''), 1700000000000 + i) \<rparr>)"

definition full_store :: KVNamespace where
  "full_store = map full_item [0..<1001]"

definition listing_request :: Request where
  "listing_request = sample_request\<lparr> req_method := ''GET'', pathname := ''/api/guestbook'' \<rparr>"

definition server_with :: "KVNamespace \<Rightarrow> Server" where
  "server_with kv = empty_server\<lparr> bindings := \<lparr> GUESTBOOK = Some kv, CORS_ORIGIN = None \<rparr> \<rparr>"

section \<open>The catalog and its two tiers\<close>

text \<open>
  C5. Every tool name of the catalog is in exactly one of \<open>FREE_TOOLS\<close> and
  \<open>GATED_TOOLS\<close>; the two lists together hold exactly the names of the catalog, they share
  no name, and the catalog has six entries with distinct names.
\<close>

theorem catalog_partition:
  "(\<forall>t \<in> set (map tool_name TOOLS). (t \<in> set FREE_TOOLS) \<noteq> (t \<in> set GATED_TOOLS))
   \<and> set FREE_TOOLS \<union> set GATED_TOOLS = set (map tool_name TOOLS)
   \<and> set FREE_TOOLS \<inter> set GATED_TOOLS = {}
   \<and> length TOOLS = 6 \<and> distinct (map tool_name TOOLS)"
  by (auto simp add: TOOLS_def FREE_TOOLS_def GATED_TOOLS_def)

theorem catalog_partition_witness:
  "(''get_skills'' \<in> set FREE_TOOLS) \<noteq> (''get_skills'' \<in> set GATED_TOOLS)"
proof -
  have "''get_skills'' \<in> set (map tool_name TOOLS)"
    by (simp add: TOOLS_def)
  with catalog_partition show ?thesis by blast
qed

section \<open>The read-only filters\<close>

lemma own_property_simps [simp]:
  "own_property [] k = None"
  "own_property [(j, v)] k = (if k = j then Some v else None)"
  by (simp_all add: own_property_def)

lemma getProjects_no_args: "getProjects pf pd (JObj []) = Inr (projects pd)"
  by (simp add: getProjects_def)

lemma getWriting_no_args: "getWriting pf pd (JObj []) = Inr (writing pd)"
  by (simp add: getWriting_def)

text \<open>The arguments are not checked against the schema of the tool: a tag that is not a
  string makes \<open>getProjects\<close> throw as soon as there is a project to test, and a limit
  that is a string of digits is read as the number.\<close>

lemma getProjects_tag_not_string:
  "getProjects sample_platform sample_profile (JObj [(''tag'', JNum 5)])
     = Inl (JsError ''params.tag.toLowerCase is not a function'')"
  by (simp add: getProjects_def sample_profile_def)

lemma getWriting_limit_string:
  "getWriting sample_platform sample_profile (JObj [(''limit'', JStr ''2'')])
     = Inr (take 2 (writing sample_profile))"
  by (simp add: getWriting_def to_number_def sample_platform_def digit_value_def)

text \<open>
  C7, as the specification states it, fails in three places. An empty tag is falsy, so
  \<open>get_projects(tag = "")\<close> filters nothing, although no sample project carries the
  empty tag. Only the query is lower-cased, so the query \<open>rust\<close> misses the stored tag
  \<open>Rust\<close>. A limit of \<open>0\<close> is falsy, so \<open>get_writing(limit = 0)\<close> returns every entry
  instead of none.
\<close>

theorem filters_counterexample:
  "getProjects sample_platform sample_profile (JObj [(''tag'', JStr '''')])
     \<noteq> Inr (spec_projects_by_tag sample_platform sample_profile '''')
   \<and> getProjects sample_platform sample_profile (JObj [(''tag'', JStr ''rust'')])
     \<noteq> Inr (spec_projects_by_tag sample_platform sample_profile ''rust'')
   \<and> getWriting sample_platform sample_profile (JObj [(''limit'', JNum 0)])
     \<noteq> Inr (spec_writing_limit sample_profile 0)"
  by (simp add: getProjects_def getWriting_def spec_projects_by_tag_def spec_writing_limit_def
      sample_profile_def sample_platform_def ascii_lower_def lower_char_def to_number_def)

text \<open>
  C7, amended. When every stored tag is in lower case, \<open>get_projects(tag = x)\<close> with a
  non-empty tag \<open>x\<close> is the subsequence of \<open>get_projects()\<close> of exactly the projects whose
  tag list contains \<open>x\<close> compared without regard to case. The empty tag filters nothing.
  For \<open>n > 0\<close>, \<open>get_writing(limit = n)\<close> is the first \<open>n\<close> entries of \<open>get_writing()\<close> (all
  of them when there are fewer); for \<open>n \<le> 0\<close> it is all of \<open>get_writing()\<close>.
\<close>

theorem filters_amended:
  "getProjects pf pd (JObj []) = Inr (projects pd)
   \<and> getWriting pf pd (JObj []) = Inr (writing pd)
   \<and> (x \<noteq> [] \<and> (\<forall>p \<in> set (projects pd). \<forall>t \<in> set (tags p). toLowerCase pf t = t) \<longrightarrow>
        getProjects pf pd (JObj [(''tag'', JStr x)]) = Inr (spec_projects_by_tag pf pd x)
        \<and> subseq (spec_projects_by_tag pf pd x) (projects pd))
   \<and> getProjects pf pd (JObj [(''tag'', JStr '''')]) = Inr (projects pd)
   \<and> (0 < n \<longrightarrow>
        getWriting pf pd (JObj [(''limit'', JNum n)]) = Inr (take (nat n) (writing pd)))
   \<and> (n \<le> 0 \<longrightarrow> getWriting pf pd (JObj [(''limit'', JNum n)]) = Inr (writing pd))"
proof (intro conjI impI)
  show "getProjects pf pd (JObj []) = Inr (projects pd)"
    by (rule getProjects_no_args)
  show "getWriting pf pd (JObj []) = Inr (writing pd)"
    by (rule getWriting_no_args)
next
  assume a: "x \<noteq> [] \<and> (\<forall>p \<in> set (projects pd). \<forall>t \<in> set (tags p). toLowerCase pf t = t)"
  have "filter (\<lambda>p. toLowerCase pf x \<in> set (tags p)) (projects pd)
      = filter (\<lambda>p. \<exists>t \<in> set (tags p). toLowerCase pf t = toLowerCase pf x) (projects pd)"
    using a by (intro filter_cong[OF refl]) auto
  with a show "getProjects pf pd (JObj [(''tag'', JStr x)]) = Inr (spec_projects_by_tag pf pd x)"
    by (simp add: getProjects_def spec_projects_by_tag_def)
  show "subseq (spec_projects_by_tag pf pd x) (projects pd)"
    by (simp add: spec_projects_by_tag_def)
next
  show "getProjects pf pd (JObj [(''tag'', JStr '''')]) = Inr (projects pd)"
    by (simp add: getProjects_def)
next
  assume "0 < n"
  then show "getWriting pf pd (JObj [(''limit'', JNum n)]) = Inr (take (nat n) (writing pd))"
    by (simp add: getWriting_def to_number_def)
next
  assume "n \<le> 0"
  then show "getWriting pf pd (JObj [(''limit'', JNum n)]) = Inr (writing pd)"
    by (cases "n = 0") (simp_all add: getWriting_def to_number_def)
qed

theorem filters_amended_witness:
  "getProjects sample_platform lower_profile (JObj [(''tag'', JStr ''RUST'')])
     = Inr [\<lparr> tags = [''rust''], featured = False, project_rest = JStr ''p2'' \<rparr>]
   \<and> getWriting sample_platform sample_profile (JObj [(''limit'', JNum 2)])
     = Inr [\<lparr> platform = ''blog'', writing_rest = JStr ''w1'' \<rparr>,
            \<lparr> platform = ''devto'', writing_rest = JStr ''w2'' \<rparr>]
   \<and> getWriting sample_platform sample_profile (JObj [(''limit'', JNum (- 1))])
     = Inr (writing sample_profile)"
proof -
  have l: "\<forall>p \<in> set (projects lower_profile). \<forall>t \<in> set (tags p). toLowerCase sample_platform t = t"
    by (simp add: lower_profile_def sample_profile_def sample_platform_def ascii_lower_def
        lower_char_def)
  have n: "''RUST'' \<noteq> []" "(0::int) < 2" "(- 1 :: int) \<le> 0"
    by simp_all
  from filters_amended[of sample_platform lower_profile "''RUST''" 2] n l
  have r1: "getProjects sample_platform lower_profile (JObj [(''tag'', JStr ''RUST'')])
        = Inr (spec_projects_by_tag sample_platform lower_profile ''RUST'')"
    by blast
  from filters_amended[of sample_platform sample_profile "''RUST''" 2] n
  have r3: "getWriting sample_platform sample_profile (JObj [(''limit'', JNum 2)])
        = Inr (take (nat 2) (writing sample_profile))"
    by blast
  from filters_amended[of sample_platform sample_profile "''RUST''" "- 1"] n
  have r4: "getWriting sample_platform sample_profile (JObj [(''limit'', JNum (- 1))])
        = Inr (writing sample_profile)"
    by blast
  have a1: "spec_projects_by_tag sample_platform lower_profile ''RUST''
      = [\<lparr> tags = [''rust''], featured = False, project_rest = JStr ''p2'' \<rparr>]"
    by (simp add: spec_projects_by_tag_def lower_profile_def sample_profile_def
        sample_platform_def ascii_lower_def lower_char_def)
  have a3: "take (nat 2) (writing sample_profile)
      = [\<lparr> platform = ''blog'', writing_rest = JStr ''w1'' \<rparr>,
         \<lparr> platform = ''devto'', writing_rest = JStr ''w2'' \<rparr>]"
    by (simp add: sample_profile_def)
  show ?thesis
    using r1 r3 r4 a1 a3 by simp
qed

section \<open>How the handlers treat the session, the store, the request and the console\<close>


lemma gated_not_leave [simp]: "''leave_message'' \<notin> set GATED_TOOLS"
  by (simp add: GATED_TOOLS_def)

text \<open>\<open>leave_message\<close> is never gated. When the store takes the entry and the name can be
  printed, the call stores, logs, grants and answers.\<close>

lemma leave_call:
  assumes "template_json (get_property params ''name'') = Inr nm"
    and "GUESTBOOK (env c) \<noteq> None \<longrightarrow> put_error d = None"
  shows "handleToolCall pf pd (Some (JStr ''leave_message'')) params c request d =
     (Inr (Result (LeaveValue (thanks nm))),
      c\<lparr> session := (session c)\<lparr> hasAccess := True \<rparr>,
         env := (case GUESTBOOK (env c) of
                   Some kv \<Rightarrow> (env c)\<lparr> GUESTBOOK := Some (kv_put (entry_key d)
                       \<lparr> kv_value = new_entry pf params request d,
                         kv_metadata = (get_property params ''name'', date_iso d) \<rparr> kv) \<rparr>
                 | None \<Rightarrow> env c),
         console := console c @ [GuestbookLog (new_entry pf params request d)] \<rparr>)"
  using assms
  by (auto simp add: handleToolCall_def leaveMessage_def thanks_def new_entry_def Let_def
      split: option.splits)

lemma tool_call_session:
  "session (snd (handleToolCall pf pd tool params c request d)) = session c
   \<or> session (snd (handleToolCall pf pd tool params c request d))
       = (session c)\<lparr> hasAccess := True \<rparr>"
  by (simp add: handleToolCall_def Let_def split: prod.splits sum.splits)

lemma leave_bound:
  "(GUESTBOOK (fst (snd (leaveMessage pf params e ip d con))) = None) = (GUESTBOOK e = None)"
  by (simp add: leaveMessage_def Let_def split: option.splits sum.splits)

lemma tool_call_bound:
  "(GUESTBOOK (env (snd (handleToolCall pf pd tool params c request d))) = None)
     = (GUESTBOOK (env c) = None)"
proof -
  have "(GUESTBOOK e' = None) = (GUESTBOOK (env c) = None)"
    if "leaveMessage pf params (env c) ip d (console c) = (r, e', con')" for ip r e' con'
    using leave_bound[of pf params "env c" ip d "console c"] that by simp
  then show ?thesis
    by (simp add: handleToolCall_def Let_def split: prod.splits sum.splits)
qed

text \<open>What a call comes to is a function of the invocation, the profile, the platform,
  the access flag, the presence of the store and the fate of the \<open>put\<close>.\<close>

lemma leave_outcome:
  assumes "(GUESTBOOK e = None) = (GUESTBOOK e' = None)" and "put_error d = put_error d'"
  shows "fst (leaveMessage pf params e ip d con) = fst (leaveMessage pf' params e' ip' d' con')"
  using assms by (auto simp add: leaveMessage_def Let_def split: option.splits sum.splits)

lemma tool_call_outcome:
  assumes "hasAccess (session c) = hasAccess (session c')"
    and "(GUESTBOOK (env c) = None) = (GUESTBOOK (env c') = None)"
    and "put_error d = put_error d'"
  shows "fst (handleToolCall pf pd tool params c request d)
     = fst (handleToolCall pf pd tool params c' request' d')"
proof -
  have l: "fst (leaveMessage pf params (env c) ip d (console c))
      = fst (leaveMessage pf params (env c') ip' d' (console c'))" for ip ip'
    by (rule leave_outcome[OF assms(2,3)])
  show ?thesis
  proof (cases "tool = Some (JStr ''leave_message'')")
    case True
    obtain r e1 con1 where a: "leaveMessage pf params (env c)
        (header_or (hdr_cf_connecting_ip request) ''unknown'') d (console c) = (r, e1, con1)"
      by (cases "leaveMessage pf params (env c)
        (header_or (hdr_cf_connecting_ip request) ''unknown'') d (console c)")
    obtain r' e1' con1' where b: "leaveMessage pf params (env c')
        (header_or (hdr_cf_connecting_ip request') ''unknown'') d' (console c') = (r', e1', con1')"
      by (cases "leaveMessage pf params (env c')
        (header_or (hdr_cf_connecting_ip request') ''unknown'') d' (console c')")
    have "r = r'"
      using l[of "header_or (hdr_cf_connecting_ip request) ''unknown''"
          "header_or (hdr_cf_connecting_ip request') ''unknown''"] a b by simp
    with True a b show ?thesis
      by (simp add: handleToolCall_def Let_def split: sum.splits)
  next
    case False
    with assms(1) show ?thesis
      by (simp add: handleToolCall_def GATED_TOOLS_def Let_def split: sum.splits)
  qed
qed

text \<open>What a handler does to the bindings and the session does not depend on the console.\<close>

lemma leave_console:
  "fst (snd (leaveMessage pf params e ip d con)) = fst (snd (leaveMessage pf params e ip d con'))
   \<and> fst (leaveMessage pf params e ip d con) = fst (leaveMessage pf params e ip d con')"
  by (simp add: leaveMessage_def Let_def split: option.splits sum.splits)

lemma tool_call_console:
  assumes "session c = session c'" and "env c = env c'"
  shows "session (snd (handleToolCall pf pd tool params c request d))
       = session (snd (handleToolCall pf pd tool params c' request d))
     \<and> env (snd (handleToolCall pf pd tool params c request d))
       = env (snd (handleToolCall pf pd tool params c' request d))"
proof (cases "tool = Some (JStr ''leave_message'')")
  case True
  let ?ip = "header_or (hdr_cf_connecting_ip request) ''unknown''"
  obtain r e1 con1 where a: "leaveMessage pf params (env c) ?ip d (console c) = (r, e1, con1)"
    by (cases "leaveMessage pf params (env c) ?ip d (console c)")
  obtain r' e1' con1' where b: "leaveMessage pf params (env c') ?ip d (console c') = (r', e1', con1')"
    by (cases "leaveMessage pf params (env c') ?ip d (console c')")
  have "r = r'" "e1 = e1'"
    using leave_console[of pf params "env c" ?ip d "console c" "console c'"] a b assms(2)
    by simp_all
  with True a b assms show ?thesis
    by (simp add: handleToolCall_def Let_def split: sum.splits)
next
  case False
  with assms show ?thesis
    by (simp add: handleToolCall_def GATED_TOOLS_def Let_def split: sum.splits)
qed

lemma tool_call_request:
  "hdr_cf_connecting_ip request = hdr_cf_connecting_ip request' \<Longrightarrow>
   handleToolCall pf pd tool params c request d
     = handleToolCall pf pd tool params c request' d"
  by (simp add: handleToolCall_def GATED_TOOLS_def)

lemma tool_call_error_data:
  "hasAccess (session c) \<Longrightarrow>
   fst (handleToolCall pf pd tool params c request d) = Inr (Error err) \<Longrightarrow>
   error_data err = None"
  by (auto simp add: handleToolCall_def GATED_TOOLS_def Let_def
      split: if_splits prod.splits sum.splits)

lemma rpc_call_unfold:
  assumes "rpc_method rpc = ''tools/call''"
    and "tool_params (rpc_params rpc) = Inr (tool, args)"
  shows "handleJsonRpc pf pd rpc c request d =
     (enveloped (rpc_id rpc) (fst (handleToolCall pf pd tool args c request d)),
      snd (handleToolCall pf pd tool args c request d))"
  using assms
  by (simp add: handleJsonRpc_def enveloped_def tool_response_def Let_def
      split: prod.splits sum.splits ToolOutcome.splits)

lemma rpc_other_unfold:
  assumes "rpc_method rpc \<noteq> ''tools/call''"
  shows "snd (handleJsonRpc pf pd rpc c request d) = c"
    and "fst (handleJsonRpc pf pd rpc c request d) = fst (handleJsonRpc pf' pd rpc c' request' d')"
    and "\<exists>r. fst (handleJsonRpc pf pd rpc c request d) = Inr r \<and> resp_id r = Some (rpc_id rpc)
           \<and> \<not> is_denial r"
  using assms by (simp_all add: handleJsonRpc_def Let_def ok_response_def is_denial_def)

lemma rpc_params_throw:
  assumes "rpc_method rpc = ''tools/call''" and "tool_params (rpc_params rpc) = Inl e"
  shows "handleJsonRpc pf pd rpc c request d = (Inl (AtOnce e), c)"
  using assms by (simp add: handleJsonRpc_def Let_def)

text \<open>The three ways an invocation can be.\<close>

lemma rpc_cases:
  obtains (other) "rpc_method rpc \<noteq> ''tools/call''"
    | (throw) e where "rpc_method rpc = ''tools/call''" "tool_params (rpc_params rpc) = Inl e"
    | (call) tool args where "rpc_method rpc = ''tools/call''"
        "tool_params (rpc_params rpc) = Inr (tool, args)"
proof (cases "rpc_method rpc = ''tools/call''")
  case False
  then show ?thesis by (rule other)
next
  case True
  show ?thesis
  proof (cases "tool_params (rpc_params rpc)")
    case (Inl e)
    with True show ?thesis by (rule throw)
  next
    case (Inr p)
    obtain tool args where "p = (tool, args)" by (cases p)
    with True Inr show ?thesis by (auto intro: call)
  qed
qed

lemma rpc_session:
  "session (snd (handleJsonRpc pf pd rpc c request d)) = session c
   \<or> session (snd (handleJsonRpc pf pd rpc c request d)) = (session c)\<lparr> hasAccess := True \<rparr>"
proof (cases rpc rule: rpc_cases)
  case other
  then show ?thesis by (simp add: rpc_other_unfold)
next
  case (throw e)
  then show ?thesis by (simp add: rpc_params_throw)
next
  case (call tool args)
  show ?thesis
    using tool_call_session[of pf pd tool args c request d]
    by (simp add: rpc_call_unfold[OF call])
qed

lemma rpc_keeps_access:
  "hasAccess (session c) \<Longrightarrow> session (snd (handleJsonRpc pf pd rpc c request d)) = session c"
  using rpc_session[of pf pd rpc c request d] by auto

lemma rpc_bound:
  "(GUESTBOOK (env (snd (handleJsonRpc pf pd rpc c request d))) = None)
     = (GUESTBOOK (env c) = None)"
proof (cases rpc rule: rpc_cases)
  case other
  then show ?thesis by (simp add: rpc_other_unfold)
next
  case (throw e)
  then show ?thesis by (simp add: rpc_params_throw)
next
  case (call tool args)
  show ?thesis
    by (simp add: rpc_call_unfold[OF call] tool_call_bound)
qed

text \<open>The response is a function of the invocation, the profile, the platform, the
  access flag, the presence of the store and the fate of the \<open>put\<close>.\<close>

lemma rpc_response:
  assumes "hasAccess (session c) = hasAccess (session c')"
    and "(GUESTBOOK (env c) = None) = (GUESTBOOK (env c') = None)"
    and "put_error d = put_error d'"
  shows "fst (handleJsonRpc pf pd rpc c request d)
     = fst (handleJsonRpc pf pd rpc c' request' d')"
proof (cases rpc rule: rpc_cases)
  case other
  then show ?thesis by (rule rpc_other_unfold)
next
  case (throw e)
  then show ?thesis by (simp add: rpc_params_throw)
next
  case (call tool args)
  show ?thesis
    using tool_call_outcome[OF assms, of pf pd tool args request request']
    by (simp add: rpc_call_unfold[OF call])
qed

lemma rpc_console:
  assumes "session c = session c'" and "env c = env c'"
  shows "session (snd (handleJsonRpc pf pd rpc c request d))
       = session (snd (handleJsonRpc pf pd rpc c' request d))
     \<and> env (snd (handleJsonRpc pf pd rpc c request d))
       = env (snd (handleJsonRpc pf pd rpc c' request d))"
proof (cases rpc rule: rpc_cases)
  case other
  then show ?thesis using assms by (simp add: rpc_other_unfold)
next
  case (throw e)
  then show ?thesis using assms by (simp add: rpc_params_throw)
next
  case (call tool args)
  show ?thesis
    using tool_call_console[OF assms, of pf pd tool args request d]
    by (simp add: rpc_call_unfold[OF call])
qed

lemma rpc_request:
  assumes "hdr_cf_connecting_ip request = hdr_cf_connecting_ip request'"
  shows "handleJsonRpc pf pd rpc c request d = handleJsonRpc pf pd rpc c request' d"
proof (cases rpc rule: rpc_cases)
  case other
  then show ?thesis by (simp add: handleJsonRpc_def Let_def)
next
  case (throw e)
  then show ?thesis by (simp add: rpc_params_throw)
next
  case (call tool args)
  show ?thesis
    by (simp add: rpc_call_unfold[OF call] tool_call_request[OF assms])
qed

lemma rpc_no_denial:
  assumes a: "hasAccess (session c)"
    and r: "fst (handleJsonRpc pf pd rpc c request d) = Inr r"
  shows "\<not> is_denial r"
proof (cases rpc rule: rpc_cases)
  case other
  from rpc_other_unfold(3)[OF other, of pf pd c request d] r show ?thesis by simp
next
  case (throw e)
  with r show ?thesis by (simp add: rpc_params_throw)
next
  case (call tool args)
  let ?o = "fst (handleToolCall pf pd tool args c request d)"
  show ?thesis
  proof (cases ?o)
    case (Inl rj)
    with r show ?thesis by (simp add: rpc_call_unfold[OF call] enveloped_def)
  next
    case (Inr out)
    show ?thesis
    proof (cases out)
      case (Result v)
      with r Inr show ?thesis
        by (auto simp add: rpc_call_unfold[OF call] enveloped_def tool_response_def
            ok_response_def is_denial_def)
    next
      case (Error err)
      have "error_data err = None"
        using tool_call_error_data[OF a] Inr Error by simp
      with r Inr Error show ?thesis
        by (auto simp add: rpc_call_unfold[OF call] enveloped_def ok_response_def is_denial_def)
    qed
  qed
qed

text \<open>A fulfilled handler answers with the identifier of its invocation.\<close>

lemma rpc_identifier:
  assumes "fst (handleJsonRpc pf pd rpc c request d) = Inr r"
  shows "resp_id r = Some (rpc_id rpc)"
proof (cases rpc rule: rpc_cases)
  case other
  from rpc_other_unfold(3)[OF other, of pf pd c request d] assms show ?thesis by simp
next
  case (throw e)
  with assms show ?thesis by (simp add: rpc_params_throw)
next
  case (call tool args)
  with assms show ?thesis
    by (auto simp add: rpc_call_unfold[OF call] enveloped_def tool_response_def ok_response_def
        split: sum.splits ToolOutcome.splits)
qed

text \<open>What a fulfilled handler has done to the store: nothing, or, for \<open>leave_message\<close> on
  a bound store, one \<open>put\<close>.\<close>

lemma leave_args_call:
  assumes "rpc_method rpc = ''tools/call''" and "tool_params (rpc_params rpc) = Inr (tool, args)"
  shows "leave_args rpc = (if tool = Some (JStr ''leave_message'') then Some args else None)"
  using assms by (simp add: leave_args_def)





text \<open>The response to a \<open>leave_message\<close> call whose name is a string.\<close>

lemma rpc_leave:
  assumes l: "leave_args rpc = Some args"
    and n: "get_property args ''name'' = Some (JStr nm)"
    and p: "GUESTBOOK (env c) \<noteq> None \<longrightarrow> put_error d = None"
  shows "fst (handleJsonRpc pf pd rpc c request d)
     = Inr (tool_response (rpc_id rpc) (LeaveValue (thanks nm)))"
proof (cases rpc rule: rpc_cases)
  case other
  with l show ?thesis by (simp add: leave_args_def)
next
  case (throw e)
  with l show ?thesis by (simp add: leave_args_def)
next
  case (call tool a)
  from l have t: "tool = Some (JStr ''leave_message'')" and a: "a = args"
    by (simp_all add: leave_args_call[OF call] split: if_splits)
  have "template_json (get_property args ''name'') = Inr nm"
    by (simp add: n)
  from leave_call[OF this p] show ?thesis
    by (simp add: rpc_call_unfold[OF call] t a enveloped_def)
qed

section \<open>The handlers of a batch\<close>

lemma run_batch_reject:
  assumes "handleJsonRpc pf pd rpc (c\<lparr> session := s0 \<rparr>) request (ds n) = (Inl rj, c1)"
  shows "run_batch pf pd request s0 ds n (rpc # rest) c
     = (Inl (reason rj),
        c1\<lparr> session := (if hasAccess (session c1) then session c1 else session c) \<rparr>)"
  using assms by (simp add: Let_def)

lemma run_batch_step:
  assumes "handleJsonRpc pf pd rpc (c\<lparr> session := s0 \<rparr>) request (ds n) = (Inr response, c1)"
    and "c2 = c1\<lparr> session := (if hasAccess (session c1) then session c1 else session c) \<rparr>"
  shows "run_batch pf pd request s0 ds n (rpc # rest) c
     = (case fst (run_batch pf pd request s0 ds (Suc n) rest c2) of
          Inl e \<Rightarrow> Inl e
        | Inr responses \<Rightarrow> Inr (response # responses),
        snd (run_batch pf pd request s0 ds (Suc n) rest c2))"
  using assms(1) unfolding assms(2) by (simp add: Let_def split: prod.splits sum.splits)

lemma run_batch_keeps_access:
  "hasAccess (session c) \<Longrightarrow>
   hasAccess (session (snd (run_batch pf pd request s0 ds n rpcs c)))"
proof (induction rpcs arbitrary: n c)
  case Nil
  then show ?case by simp
next
  case (Cons rpc rest)
  obtain r c1 where h: "handleJsonRpc pf pd rpc (c\<lparr> session := s0 \<rparr>) request (ds n) = (r, c1)"
    by (cases "handleJsonRpc pf pd rpc (c\<lparr> session := s0 \<rparr>) request (ds n)")
  define c2 where "c2 = c1\<lparr> session := (if hasAccess (session c1) then session c1 else session c) \<rparr>"
  have a: "hasAccess (session c2)"
    using Cons.prems by (simp add: c2_def)
  show ?case
  proof (cases r)
    case (Inl rj)
    with h a show ?thesis
      by (simp del: run_batch.simps add: run_batch_reject c2_def)
  next
    case (Inr response)
    from Cons.IH[OF a, of "Suc n"] h Inr show ?thesis
      by (simp del: run_batch.simps add: run_batch_step[where ds=ds and n=n, OF _ c2_def])
  qed
qed


lemma run_batch_console:
  assumes "session c = session c'" and "env c = env c'"
  shows "fst (run_batch pf pd request s0 ds n rpcs c) = fst (run_batch pf pd request s0 ds n rpcs c')
     \<and> session (snd (run_batch pf pd request s0 ds n rpcs c))
       = session (snd (run_batch pf pd request s0 ds n rpcs c'))
     \<and> env (snd (run_batch pf pd request s0 ds n rpcs c))
       = env (snd (run_batch pf pd request s0 ds n rpcs c'))"
  using assms
proof (induction rpcs arbitrary: n c c')
  case Nil
  then show ?case by simp
next
  case (Cons rpc rest)
  obtain r c1 where h: "handleJsonRpc pf pd rpc (c\<lparr> session := s0 \<rparr>) request (ds n) = (r, c1)"
    by (cases "handleJsonRpc pf pd rpc (c\<lparr> session := s0 \<rparr>) request (ds n)")
  obtain r' c1' where h': "handleJsonRpc pf pd rpc (c'\<lparr> session := s0 \<rparr>) request (ds n) = (r', c1')"
    by (cases "handleJsonRpc pf pd rpc (c'\<lparr> session := s0 \<rparr>) request (ds n)")
  define c2 where "c2 = c1\<lparr> session := (if hasAccess (session c1) then session c1 else session c) \<rparr>"
  define c2' where "c2' = c1'\<lparr> session := (if hasAccess (session c1') then session c1' else session c') \<rparr>"
  have p: "session (c\<lparr> session := s0 \<rparr>) = session (c'\<lparr> session := s0 \<rparr>)"
    "env (c\<lparr> session := s0 \<rparr>) = env (c'\<lparr> session := s0 \<rparr>)"
    using Cons.prems by simp_all
  from rpc_console[OF p, of pf pd rpc request "ds n"] h h'
  have e: "session c1 = session c1'" "env c1 = env c1'" by simp_all
  have "fst (handleJsonRpc pf pd rpc (c\<lparr> session := s0 \<rparr>) request (ds n))
      = fst (handleJsonRpc pf pd rpc (c'\<lparr> session := s0 \<rparr>) request (ds n))"
    by (rule rpc_response) (simp_all add: Cons.prems)
  with h h' have rr: "r' = r" by simp
  have q: "session c2 = session c2'" "env c2 = env c2'"
    using e Cons.prems by (simp_all add: c2_def c2'_def)
  show ?case
  proof (cases r)
    case (Inl rj)
    with h h' rr q show ?thesis
      by (simp del: run_batch.simps add: run_batch_reject c2_def c2'_def)
  next
    case (Inr response)
    from Cons.IH[OF q, of "Suc n"] h h' rr Inr show ?thesis
      by (simp del: run_batch.simps add: run_batch_step[where ds=ds and n=n, OF _ c2_def]
          run_batch_step[where ds=ds and n=n, OF _ c2'_def])
  qed
qed

lemma run_batch_request:
  assumes "hdr_cf_connecting_ip request = hdr_cf_connecting_ip request'"
  shows "run_batch pf pd request s0 ds n rpcs c = run_batch pf pd request' s0 ds n rpcs c"
  by (induction rpcs arbitrary: n c)
     (simp_all add: rpc_request[OF assms] Let_def split: prod.splits sum.splits)

lemma run_batch_no_denial:
  assumes "hasAccess s0" and "fst (run_batch pf pd request s0 ds n rpcs c) = Inr rs"
  shows "\<forall>r \<in> set rs. \<not> is_denial r"
  using assms(2)
proof (induction rpcs arbitrary: n c rs)
  case Nil
  then show ?case by simp
next
  case (Cons rpc rest)
  obtain r c1 where h: "handleJsonRpc pf pd rpc (c\<lparr> session := s0 \<rparr>) request (ds n) = (r, c1)"
    by (cases "handleJsonRpc pf pd rpc (c\<lparr> session := s0 \<rparr>) request (ds n)")
  define c2 where "c2 = c1\<lparr> session := (if hasAccess (session c1) then session c1 else session c) \<rparr>"
  show ?case
  proof (cases r)
    case (Inl rj)
    with h Cons.prems show ?thesis
      by (simp del: run_batch.simps add: run_batch_reject)
  next
    case (Inr response)
    have n: "\<not> is_denial response"
      using rpc_no_denial[of "c\<lparr> session := s0 \<rparr>" pf pd rpc request "ds n" response] assms(1) h Inr
      by simp
    from Cons.prems h Inr obtain rs' where
      t: "fst (run_batch pf pd request s0 ds (Suc n) rest c2) = Inr rs'" and rs: "rs = response # rs'"
      by (auto simp del: run_batch.simps
          simp add: run_batch_step[where ds=ds and n=n, OF _ c2_def] split: sum.splits)
    from Cons.IH[OF t] n rs show ?thesis by simp
  qed
qed

text \<open>When every handler of a batch settles on the state the batch starts from, the
  batch answers with their responses, in the order of the entries.\<close>

lemma run_batch_settled:
  assumes "\<forall>j < length rpcs. settles pf pd (rpcs ! j) c0 request (ds (n + j))"
    and "hasAccess (session c0) = hasAccess s0"
    and "(GUESTBOOK (env c0) = None) = (GUESTBOOK (env c) = None)"
  shows "fst (run_batch pf pd request s0 ds n rpcs c)
     = Inr (map (\<lambda>(j, rpc). projr (fst (handleJsonRpc pf pd rpc c0 request (ds j))))
              (enumerate n rpcs))"
  using assms(1,3)
proof (induction rpcs arbitrary: n c)
  case Nil
  then show ?case by simp
next
  case (Cons rpc rest)
  obtain r c1 where h: "handleJsonRpc pf pd rpc (c\<lparr> session := s0 \<rparr>) request (ds n) = (r, c1)"
    by (cases "handleJsonRpc pf pd rpc (c\<lparr> session := s0 \<rparr>) request (ds n)")
  define c2 where "c2 = c1\<lparr> session := (if hasAccess (session c1) then session c1 else session c) \<rparr>"
  have s: "settles pf pd rpc c0 request (ds n)"
    using Cons.prems(1) by force
  have "fst (handleJsonRpc pf pd rpc (c\<lparr> session := s0 \<rparr>) request (ds n))
      = fst (handleJsonRpc pf pd rpc c0 request (ds n))"
    by (rule rpc_response) (simp_all add: assms(2) Cons.prems(2))
  with h have r: "r = fst (handleJsonRpc pf pd rpc c0 request (ds n))" by simp
  with s obtain response where i: "r = Inr response"
    by (auto simp add: settles_def split: sum.splits)
  have b: "(GUESTBOOK (env c0) = None) = (GUESTBOOK (env c2) = None)"
    using rpc_bound[of pf pd rpc "c\<lparr> session := s0 \<rparr>" request "ds n"] h Cons.prems(2)
    by (simp add: c2_def)
  have t: "\<forall>j < length rest. settles pf pd (rest ! j) c0 request (ds (Suc n + j))"
    using Cons.prems(1) by force
  from Cons.IH[OF t b] h i r show ?case
    by (simp del: run_batch.simps add: run_batch_step[where ds=ds and n=n, OF _ c2_def])
qed

lemma first_some_none: "(\<forall>x \<in> set xs. x = None) \<Longrightarrow> first_some xs = None"
  by (induction xs) auto

lemma settled_not_rejected:
  assumes "\<forall>j < length rpcs. settles pf pd (rpcs ! j) c request (ds j)"
  shows "rejected_unawaited (started pf pd request ds rpcs c) = None"
proof -
  have "at_once r = None \<and> early r = None" if "r \<in> set (started pf pd request ds rpcs c)" for r
  proof -
    from that obtain j where j: "j < length rpcs"
      and r: "r = fst (handleJsonRpc pf pd (rpcs ! j) c request (ds j))"
      by (auto simp add: started_def in_set_enumerate_eq)
    from assms j have "settles pf pd (rpcs ! j) c request (ds j)" by simp
    with r show ?thesis by (auto simp add: settles_def split: sum.splits)
  qed
  then have "\<forall>x \<in> set (map at_once (started pf pd request ds rpcs c)). x = None"
    and "\<forall>x \<in> set (map early (started pf pd request ds rpcs c)). x = None"
    by auto
  then show ?thesis
    by (simp add: rejected_unawaited_def first_some_none)
qed




section \<open>The endpoint\<close>

lemma token_keeps_access:
  "hasAccess s \<Longrightarrow> hasAccess (fst (agent_token_step dec gi now tok s con))"
  by (simp add: agent_token_step_def split: option.splits sum.splits)

lemma token_step_session:
  "fst (agent_token_step dec gi now tok s con) = s
   \<or> (\<exists>t. tok = Some t \<and> fst (agent_token_step dec gi now tok s con)
         = s\<lparr> hasAccess := True, agentToken := Some t \<rparr>)"
  by (simp add: agent_token_step_def split: option.splits sum.splits)

lemma token_step_valid:
  "t \<noteq> [] \<Longrightarrow> dec t = Inr dcd \<Longrightarrow> gi dcd = Inr (Some intent) \<Longrightarrow>
   agent_token_step dec gi now (Some t) s con
     = (s\<lparr> hasAccess := True, agentToken := Some t \<rparr>, con @ [AgentVisitLog intent now])"
  by (simp add: agent_token_step_def)

lemma token_step_invalid:
  "dec t = Inl e \<or> (dec t = Inr dcd \<and> gi dcd = Inl e) \<or> (dec t = Inr dcd \<and> gi dcd = Inr None) \<Longrightarrow>
   fst (agent_token_step dec gi now (Some t) s con) = s"
  by (auto simp add: agent_token_step_def)

lemma token_step_none: "agent_token_step dec gi now None s con = (s, con)"
  by (simp add: agent_token_step_def)

lemma started_console:
  assumes "session c = session c'" and "env c = env c'"
  shows "started pf pd request ds rpcs c = started pf pd request ds rpcs c'"
proof -
  have "fst (handleJsonRpc pf pd rpc c request d) = fst (handleJsonRpc pf pd rpc c' request d)"
    for rpc d
    by (rule rpc_response) (simp_all add: assms)
  then show ?thesis by (simp add: started_def)
qed

lemma started_request:
  assumes "hdr_cf_connecting_ip request = hdr_cf_connecting_ip request'"
  shows "started pf pd request ds rpcs c = started pf pd request' ds rpcs c"
  by (simp add: started_def rpc_request[OF assms])

text \<open>The three ways a batch can end.\<close>

lemma batch_cases:
  assumes b: "req_json request = RpcBatch rpcs"
  obtains (unawaited) e where
      "rejected_unawaited (started pf pd request (draws mom) rpcs c) = Some e"
      "mcp_dispatch pf pd request mom srv c
         = (parse_error e,
            srv\<lparr> sessionCache := (sessionCache srv)(getSessionKey request \<mapsto> session c),
                 bindings := env c, log_lines := console c \<rparr>)"
    | (late) e c' where
      "rejected_unawaited (started pf pd request (draws mom) rpcs c) = None"
      "run_batch pf pd request (session c) (draws mom) 0 rpcs c = (Inl e, c')"
      "mcp_dispatch pf pd request mom srv c
         = (parse_error e,
            srv\<lparr> sessionCache := (sessionCache srv)(getSessionKey request \<mapsto> session c'),
                 bindings := env c', log_lines := console c' \<rparr>)"
    | (settled) rs c' where
      "rejected_unawaited (started pf pd request (draws mom) rpcs c) = None"
      "run_batch pf pd request (session c) (draws mom) 0 rpcs c = (Inr rs, c')"
      "mcp_dispatch pf pd request mom srv c
         = (\<lparr> status = 200, body = RpcBatchBody rs \<rparr>,
            srv\<lparr> sessionCache := (sessionCache srv)(getSessionKey request \<mapsto> session c'),
                 bindings := env c', log_lines := console c' \<rparr>)"
proof (cases "rejected_unawaited (started pf pd request (draws mom) rpcs c)")
  case (Some e)
  with b show ?thesis
    by (intro unawaited[of e]) (simp_all add: mcp_dispatch_def)
next
  case None
  obtain r c' where h: "run_batch pf pd request (session c) (draws mom) 0 rpcs c = (r, c')"
    by (cases "run_batch pf pd request (session c) (draws mom) 0 rpcs c")
  show ?thesis
  proof (cases r)
    case (Inl e)
    with b None h show ?thesis
      by (intro late[of e c']) (simp_all add: mcp_dispatch_def)
  next
    case (Inr rs)
    with b None h show ?thesis
      by (intro settled[of rs c']) (simp_all add: mcp_dispatch_def)
  qed
qed

lemma single_unfold:
  assumes "req_json request = RpcSingle rpc"
  shows "mcp_dispatch pf pd request mom srv c
     = (case fst (handleJsonRpc pf pd rpc c request (draws mom 0)) of
          Inl rj \<Rightarrow> parse_error (reason rj)
        | Inr response \<Rightarrow> \<lparr> status = 200, body = RpcBody response \<rparr>,
        srv\<lparr> sessionCache := (sessionCache srv)(getSessionKey request \<mapsto>
                 session (snd (handleJsonRpc pf pd rpc c request (draws mom 0)))),
             bindings := env (snd (handleJsonRpc pf pd rpc c request (draws mom 0))),
             log_lines := console (snd (handleJsonRpc pf pd rpc c request (draws mom 0))) \<rparr>)"
  using assms by (simp add: mcp_dispatch_def Let_def split: prod.splits sum.splits)

lemma mcp_dispatch_cache:
  "\<exists>s'. sessionCache (snd (mcp_dispatch pf pd request mom srv c))
        = (sessionCache srv)(getSessionKey request \<mapsto> s')
      \<and> (hasAccess (session c) \<longrightarrow> hasAccess s')"
proof (cases "req_json request")
  case (Unparseable e)
  then have "sessionCache (snd (mcp_dispatch pf pd request mom srv c))
      = (sessionCache srv)(getSessionKey request \<mapsto> session c)"
    by (simp add: mcp_dispatch_def Let_def)
  then show ?thesis by metis
next
  case (RpcSingle rpc)
  define c' where "c' = snd (handleJsonRpc pf pd rpc c request (draws mom 0))"
  have h: "hasAccess (session c) \<longrightarrow> hasAccess (session c')"
    using rpc_keeps_access[of c pf pd rpc request "draws mom 0"] by (simp add: c'_def)
  have "sessionCache (snd (mcp_dispatch pf pd request mom srv c))
      = (sessionCache srv)(getSessionKey request \<mapsto> session c')"
    unfolding c'_def by (simp add: single_unfold[OF RpcSingle])
  with h show ?thesis by metis
next
  case (RpcBatch rpcs)
  from RpcBatch show ?thesis
  proof (cases rule: batch_cases[where pf=pf and pd=pd and mom=mom and c=c and srv=srv])
    case (unawaited e)
    then have "sessionCache (snd (mcp_dispatch pf pd request mom srv c))
      = (sessionCache srv)(getSessionKey request \<mapsto> session c)"
      by simp
    then show ?thesis by metis
  next
    case (late e c')
    have h: "hasAccess (session c) \<longrightarrow> hasAccess (session c')"
      using run_batch_keeps_access[of c pf pd request "session c" "draws mom" 0 rpcs] late(2)
      by simp
    have "sessionCache (snd (mcp_dispatch pf pd request mom srv c))
      = (sessionCache srv)(getSessionKey request \<mapsto> session c')"
      using late(3) by simp
    with h show ?thesis by metis
  next
    case (settled rs c')
    have h: "hasAccess (session c) \<longrightarrow> hasAccess (session c')"
      using run_batch_keeps_access[of c pf pd request "session c" "draws mom" 0 rpcs] settled(2)
      by simp
    have "sessionCache (snd (mcp_dispatch pf pd request mom srv c))
      = (sessionCache srv)(getSessionKey request \<mapsto> session c')"
      using settled(3) by simp
    with h show ?thesis by metis
  qed
next
  case (Submission nm msg)
  then have "sessionCache (snd (mcp_dispatch pf pd request mom srv c))
      = (sessionCache srv)(getSessionKey request \<mapsto> session c)"
    by (simp add: mcp_dispatch_def Let_def)
  then show ?thesis by metis
qed

lemma fetch_mcp_unfold:
  "fetch_mcp pf dec gi pd request mom srv
     = mcp_dispatch pf pd request mom srv (started_on dec gi request mom srv)"
  by (simp add: fetch_mcp_def started_on_def Let_def split: prod.splits)

lemma fetch_mcp_cache:
  "\<exists>s'. sessionCache (snd (fetch_mcp pf dec gi pd request mom srv))
        = (sessionCache srv)(getSessionKey request \<mapsto> s')
      \<and> (hasAccess (loaded srv request) \<longrightarrow> hasAccess s')"
proof -
  let ?c = "started_on dec gi request mom srv"
  have a: "hasAccess (loaded srv request) \<longrightarrow> hasAccess (session ?c)"
    using token_keeps_access[of "loaded srv request" dec gi "visit_time mom"
        "hdr_agent_token request" "log_lines srv"] by (simp add: started_on_def)
  obtain s' where "sessionCache (snd (mcp_dispatch pf pd request mom srv ?c))
        = (sessionCache srv)(getSessionKey request \<mapsto> s')"
    and "hasAccess (session ?c) \<longrightarrow> hasAccess s'"
    using mcp_dispatch_cache[of pf pd request mom srv ?c] by blast
  with a show ?thesis
    unfolding fetch_mcp_unfold by metis
qed

lemma post_cache:
  "sessionCache (snd (fetch_guestbook_post pf request mom srv)) = sessionCache srv"
  by (simp add: fetch_guestbook_post_def Let_def split: JsonBody.splits prod.splits sum.splits)

lemma fetch_keeps_access:
  assumes "sessionCache srv k = Some s" and "hasAccess s"
  shows "\<exists>s'. sessionCache (snd (fetch pf dec gi pd request mom srv)) k = Some s' \<and> hasAccess s'"
proof -
  have m: "\<exists>s'. sessionCache (snd (fetch_mcp pf dec gi pd request mom srv)) k = Some s' \<and> hasAccess s'"
  proof -
    obtain s' where c: "sessionCache (snd (fetch_mcp pf dec gi pd request mom srv))
        = (sessionCache srv)(getSessionKey request \<mapsto> s')"
      and h: "hasAccess (loaded srv request) \<longrightarrow> hasAccess s'"
      using fetch_mcp_cache[of pf dec gi pd request mom srv] by blast
    show ?thesis
    proof (cases "k = getSessionKey request")
      case True
      then have "loaded srv request = s" using assms(1) by (simp add: loaded_def)
      with h assms(2) True c show ?thesis by simp
    next
      case False
      with c assms show ?thesis by simp
    qed
  qed
  show ?thesis
    using m assms by (simp add: fetch_def post_cache)
qed

lemma serve_keeps_access:
  "sessionCache srv k = Some s \<Longrightarrow> hasAccess s \<Longrightarrow>
   \<exists>s'. sessionCache (serve pf dec gi pd reqs srv) k = Some s' \<and> hasAccess s'"
proof (induction reqs arbitrary: srv s)
  case Nil
  then show ?case by simp
next
  case (Cons a reqs)
  obtain request mom where a: "a = (request, mom)" by (cases a)
  from fetch_keeps_access[OF Cons.prems, of pf dec gi pd request mom]
  obtain s1 where "sessionCache (snd (fetch pf dec gi pd request mom srv)) k = Some s1"
    and "hasAccess s1" by blast
  from Cons.IH[OF this] show ?case by (simp add: a)
qed

lemma session_key_token:
  "getSessionKey (request\<lparr> hdr_agent_token := x \<rparr>) = getSessionKey request"
  by (simp add: getSessionKey_def)

lemma mcp_dispatch_token:
  "mcp_dispatch pf pd (request\<lparr> hdr_agent_token := x \<rparr>) mom srv c
     = mcp_dispatch pf pd request mom srv c"
proof -
  have e: "hdr_cf_connecting_ip (request\<lparr> hdr_agent_token := x \<rparr>) = hdr_cf_connecting_ip request"
    by simp
  show ?thesis
    by (cases "req_json request")
       (simp_all add: mcp_dispatch_def session_key_token rpc_request[OF e] run_batch_request[OF e]
          started_request[OF e] Let_def split: option.splits prod.splits sum.splits)
qed

lemma mcp_dispatch_server:
  "mcp_dispatch pf pd request mom
      (srv\<lparr> sessionCache := (sessionCache srv)(getSessionKey request \<mapsto> x), log_lines := y \<rparr>) c
     = mcp_dispatch pf pd request mom srv c"
  by (cases "req_json request")
     (simp_all add: mcp_dispatch_def Let_def split: prod.splits sum.splits option.splits)

lemma parse_error_no_denial: "body (parse_error e) = RpcBody r \<Longrightarrow> \<not> is_denial r"
  by (auto simp: parse_error_def is_denial_def)

lemma mcp_dispatch_no_denial:
  assumes a: "hasAccess (session c)"
  shows "(\<forall>r. body (fst (mcp_dispatch pf pd request mom srv c)) = RpcBody r \<longrightarrow> \<not> is_denial r)
     \<and> (\<forall>rs. body (fst (mcp_dispatch pf pd request mom srv c)) = RpcBatchBody rs \<longrightarrow>
            (\<forall>r \<in> set rs. \<not> is_denial r))"
proof (cases "req_json request")
  case (Unparseable e)
  then show ?thesis
    by (auto simp: mcp_dispatch_def Let_def parse_error_def is_denial_def)
next
  case (Submission nm msg)
  then show ?thesis
    by (auto simp: mcp_dispatch_def Let_def is_denial_def)
next
  case (RpcSingle rpc)
  show ?thesis
  proof (cases "fst (handleJsonRpc pf pd rpc c request (draws mom 0))")
    case (Inl e)
    then show ?thesis
      by (auto simp: single_unfold[OF RpcSingle] parse_error_def is_denial_def)
  next
    case (Inr x)
    have "\<not> is_denial x"
      using rpc_no_denial[OF a Inr] .
    with Inr show ?thesis
      by (auto simp: single_unfold[OF RpcSingle])
  qed
next
  case (RpcBatch rpcs)
  from RpcBatch show ?thesis
  proof (cases rule: batch_cases[where pf=pf and pd=pd and mom=mom and c=c and srv=srv])
    case (unawaited e)
    then show ?thesis by (auto simp: parse_error_def is_denial_def)
  next
    case (late e c')
    then show ?thesis by (auto simp: parse_error_def is_denial_def)
  next
    case (settled rs c')
    have "\<forall>r \<in> set rs. \<not> is_denial r"
      using run_batch_no_denial[OF a, of pf pd request "draws mom" 0 rpcs c rs] settled(2)
      by simp
    with settled(3) show ?thesis by simp
  qed
qed

lemma mcp_dispatch_console:
  assumes s: "session c = session c'" and e: "env c = env c'"
  shows "fst (mcp_dispatch pf pd request mom srv c) = fst (mcp_dispatch pf pd request mom srv c')
     \<and> sessionCache (snd (mcp_dispatch pf pd request mom srv c))
         = sessionCache (snd (mcp_dispatch pf pd request mom srv c'))
     \<and> bindings (snd (mcp_dispatch pf pd request mom srv c))
         = bindings (snd (mcp_dispatch pf pd request mom srv c'))"
proof (cases "req_json request")
  case (Unparseable x)
  then show ?thesis using s e by (simp add: mcp_dispatch_def Let_def)
next
  case (Submission nm msg)
  then show ?thesis using s e by (simp add: mcp_dispatch_def Let_def)
next
  case (RpcSingle rpc)
  have "fst (handleJsonRpc pf pd rpc c request (draws mom 0))
      = fst (handleJsonRpc pf pd rpc c' request (draws mom 0))"
    by (rule rpc_response) (simp_all add: s e)
  moreover note rpc_console[OF s e, of pf pd rpc request "draws mom 0"]
  ultimately show ?thesis
    by (simp add: single_unfold[OF RpcSingle])
next
  case (RpcBatch rpcs)
  have st: "started pf pd request (draws mom) rpcs c = started pf pd request (draws mom) rpcs c'"
    by (rule started_console[OF s e])
  obtain r c1 where h: "run_batch pf pd request (session c) (draws mom) 0 rpcs c = (r, c1)"
    by (cases "run_batch pf pd request (session c) (draws mom) 0 rpcs c")
  obtain r' c1' where h': "run_batch pf pd request (session c) (draws mom) 0 rpcs c' = (r', c1')"
    by (cases "run_batch pf pd request (session c) (draws mom) 0 rpcs c'")
  have rb: "r' = r" "session c1' = session c1" "env c1' = env c1"
    using run_batch_console[OF s e, of pf pd request "session c" "draws mom" 0 rpcs] h h'
    by simp_all
  show ?thesis
  proof (cases "rejected_unawaited (started pf pd request (draws mom) rpcs c')")
    case (Some x)
    with RpcBatch st s e show ?thesis by (simp add: mcp_dispatch_def)
  next
    case None
    with RpcBatch st h h' rb s[symmetric] show ?thesis
      by (cases r) (simp_all add: mcp_dispatch_def)
  qed
qed

section \<open>The gate of \<open>handleToolCall\<close>\<close>

lemma tool_params_object:
  assumes "get_property toolParams k = Some v"
  shows "tool_params (Some toolParams)
     = Inr (get_property toolParams ''name'',
            arguments_or_empty (get_property toolParams ''arguments''))"
  using assms by (cases toolParams) simp_all

text \<open>
  C1. A \<open>tools/call\<close> of a tool in \<open>GATED_TOOLS\<close> on a session without access resolves to
  an envelope with a \<open>result\<close> and no \<open>error\<close>, whose one content item carries the hint,
  the name of the tool and the list \<open>FREE_TOOLS\<close>, marked \<open>isError\<close>. The response is the
  same for every profile document and every argument value, so no tool implementation
  contributes to it, and the session, the bindings (with the guestbook) and the console
  are returned as they were.
\<close>

theorem gated_call_denied:
  assumes "tool \<in> set GATED_TOOLS"
    and "\<not> hasAccess (session c)"
    and "rpc_method rpc = ''tools/call''"
    and "rpc_params rpc = Some toolParams"
    and "get_property toolParams ''name'' = Some (JStr tool)"
  shows "handleJsonRpc pf pd rpc c request d =
           (Inr \<lparr> resp_id = Some (rpc_id rpc),
                  resp_result = Some (CallResult
                    [\<lparr> content_type = ''text'',
                       content_text = StringifyError (ErrData
                         \<lparr> hint = ''Call leave_message() first to introduce yourself, or include an Agent-Token header.'',
                           gated_tool = Some (JStr tool),
                           free_tools = FREE_TOOLS \<rparr>) \<rparr>]
                    (Some True)),
                  resp_error = None \<rparr>, c)
         \<and> (\<forall>a. handleToolCall pf pd (Some (JStr tool)) a c request d
                = (Inr (Error (denial (Some (JStr tool)))), c))"
proof -
  have t: "handleToolCall pf pd (Some (JStr tool)) a c request d
      = (Inr (Error (denial (Some (JStr tool)))), c)" for a
    using assms(1,2) by (simp add: handleToolCall_def)
  have "tool_params (rpc_params rpc)
      = Inr (Some (JStr tool), arguments_or_empty (get_property toolParams ''arguments''))"
    using tool_params_object[OF assms(5)] assms(4,5) by simp
  from rpc_call_unfold[OF assms(3) this] t show ?thesis
    by (simp add: enveloped_def ok_response_def denial_def)
qed

theorem gated_call_denied_witness:
  "handleJsonRpc sample_platform sample_profile
     \<lparr> rpc_id = IdNumber 7, rpc_method = ''tools/call'',
       rpc_params = Some (JObj [(''name'', JStr ''get_experience'')]) \<rparr>
     (fresh_ctx (Some [])) sample_request draw1
   = (Inr \<lparr> resp_id = Some (IdNumber 7),
            resp_result = Some (CallResult
              [\<lparr> content_type = ''text'',
                 content_text = StringifyError (ErrData
                   \<lparr> hint = ''Call leave_message() first to introduce yourself, or include an Agent-Token header.'',
                     gated_tool = Some (JStr ''get_experience''),
                     free_tools = [''get_profile'', ''get_projects'', ''get_writing'', ''leave_message''] \<rparr>) \<rparr>]
              (Some True)),
            resp_error = None \<rparr>, fresh_ctx (Some []))"
  using gated_call_denied [of "''get_experience''" "fresh_ctx (Some [])"
      "\<lparr> rpc_id = IdNumber 7, rpc_method = ''tools/call'',
         rpc_params = Some (JObj [(''name'', JStr ''get_experience'')]) \<rparr>"
      "JObj [(''name'', JStr ''get_experience'')]" sample_platform sample_profile sample_request draw1]
  by (simp add: GATED_TOOLS_def FREE_TOOLS_def fresh_ctx_def)

section \<open>Required arguments\<close>

lemma sample_keys:
  "entry_key draw1 = ''entry:1700000000001:3b241101-e2bb-4255-8caf-4136c566a962''"
  "entry_key draw2 = ''entry:1700000000502:9f1c2d3e-0a4b-4c5d-9e6f-708192a3b4c5''"
  by (simp_all add: entry_key_def draw1_def draw2_def show_nat.simps)

lemma sample_hash: "hashIP sample_platform ip = ''1fa0030405060708''"
  by (simp add: hashIP_def sample_platform_def sample_sha_def hex2_def hex_digit_def)

text \<open>The guestbook form, the other way to reach \<open>leaveMessage\<close>, does reject a missing or
  empty name or message, and then neither stores nor logs anything.\<close>

lemma guestbook_form_validates:
  "\<not> truthy nm \<or> \<not> truthy msg \<Longrightarrow>
   fetch_guestbook_post pf (request\<lparr> req_json := Submission nm msg \<rparr>) mom srv
     = (\<lparr> status = 400, body = FailureBody ''Name and message are required'' \<rparr>, srv)"
  by (simp add: fetch_guestbook_post_def)

text \<open>
  C4. The catalog declares \<open>name\<close> and \<open>message\<close> required for \<open>leave_message\<close>, and the
  guestbook form rejects a submission in which either is missing or empty, but the
  dispatcher checks neither: a \<open>tools/call\<close> of \<open>leave_message\<close> with an empty \<open>name\<close> and
  no \<open>message\<close> runs the executor, which stores the entry, grants access and answers
  with the success payload.
\<close>

theorem leave_message_unvalidated:
  "handleJsonRpc sample_platform sample_profile
     \<lparr> rpc_id = IdNumber 1, rpc_method = ''tools/call'',
       rpc_params = Some (JObj [(''name'', JStr ''leave_message''),
                                (''arguments'', JObj [(''name'', JStr '''')])]) \<rparr>
     (fresh_ctx (Some [])) sample_request draw1
   = (Inr \<lparr> resp_id = Some (IdNumber 1),
            resp_result = Some (CallResult
              [\<lparr> content_type = ''text'',
                 content_text = StringifyResult (LeaveValue
                   \<lparr> success = True, access_granted = True,
                     result_message = ''Thanks, ! You now have access to all profile information.'' \<rparr>) \<rparr>]
              None),
            resp_error = None \<rparr>,
      \<lparr> session = \<lparr> hasAccess = True, agentToken = None \<rparr>,
        env = \<lparr> GUESTBOOK = Some
                 [(''entry:1700000000001:3b241101-e2bb-4255-8caf-4136c566a962'',
                   \<lparr> kv_value = \<lparr> entry_name = Some (JStr ''''), entry_message = None,
                                  agent_id = None, contact = None, timestamp = 1700000000000,
                                  ip_hash = Some ''1fa0030405060708'' \<rparr>,
                     kv_metadata = (Some (JStr ''''), 1700000000000) \<rparr>)],
                CORS_ORIGIN = None \<rparr>,
        console = [GuestbookLog \<lparr> entry_name = Some (JStr ''''), entry_message = None,
                                  agent_id = None, contact = None, timestamp = 1700000000000,
                                  ip_hash = Some ''1fa0030405060708'' \<rparr>] \<rparr>)"
proof -
  let ?args = "JObj [(''name'', JStr '''')]"
  let ?rpc = "\<lparr> rpc_id = IdNumber 1, rpc_method = ''tools/call'',
       rpc_params = Some (JObj [(''name'', JStr ''leave_message''), (''arguments'', ?args)]) \<rparr>"
  have m: "rpc_method ?rpc = ''tools/call''" by simp
  have p: "tool_params (rpc_params ?rpc) = Inr (Some (JStr ''leave_message''), ?args)"
    by (simp add: own_property_def arguments_or_empty_def)
  have n: "template_json (get_property ?args ''name'') = Inr ''''" by simp
  have b: "GUESTBOOK (env (fresh_ctx (Some []))) \<noteq> None \<longrightarrow> put_error draw1 = None"
    by (simp add: draw1_def)
  show ?thesis
    unfolding rpc_call_unfold[OF m p] leave_call[OF n b]
    by (simp add: enveloped_def tool_response_def ok_response_def thanks_def new_entry_def
        fresh_ctx_def kv_put_def sample_keys sample_hash)
       (simp add: draw1_def)
qed

section \<open>\<open>leave_message\<close>\<close>


lemma mcp_route:
  assumes "req_method request = ''POST''"
    and "pathname request \<notin> {''/.well-known/mcp.json'', ''/mcp.json'', ''/health'', ''/api/guestbook''}"
  shows "fetch pf dec gi pd request mom srv
     = mcp_dispatch pf pd request mom srv (started_on dec gi request mom srv)"
  using assms by (simp add: fetch_def fetch_mcp_unfold)

lemma started_on_env [simp]: "env (started_on dec gi request mom srv) = bindings srv"
  by (simp add: started_on_def)




text \<open>A batch all of whose handlers settle.\<close>

lemma batch_settled:
  assumes b: "req_json request = RpcBatch rpcs"
    and p: "\<forall>j < length rpcs. settles pf pd (rpcs ! j) c request (draws mom j)"
  shows "mcp_dispatch pf pd request mom srv c =
     (\<lparr> status = 200,
        body = RpcBatchBody
          (map (\<lambda>(j, rpc). projr (fst (handleJsonRpc pf pd rpc c request (draws mom j))))
             (enumerate 0 rpcs)) \<rparr>,
      srv\<lparr> sessionCache := (sessionCache srv)(getSessionKey request \<mapsto>
               session (snd (run_batch pf pd request (session c) (draws mom) 0 rpcs c))),
           bindings := env (snd (run_batch pf pd request (session c) (draws mom) 0 rpcs c)),
           log_lines := console (snd (run_batch pf pd request (session c) (draws mom) 0 rpcs c)) \<rparr>)"
proof -
  have n: "rejected_unawaited (started pf pd request (draws mom) rpcs c) = None"
    by (rule settled_not_rejected[OF p])
  have p0: "\<forall>j < length rpcs. settles pf pd (rpcs ! j) c request (draws mom (0 + j))"
    using p by simp
  obtain rs c' where h: "run_batch pf pd request (session c) (draws mom) 0 rpcs c = (rs, c')"
    by (cases "run_batch pf pd request (session c) (draws mom) 0 rpcs c")
  have "fst (run_batch pf pd request (session c) (draws mom) 0 rpcs c)
     = Inr (map (\<lambda>(j, rpc). projr (fst (handleJsonRpc pf pd rpc c request (draws mom j))))
              (enumerate 0 rpcs))"
    by (rule run_batch_settled[OF p0]) simp_all
  with h have "rs = Inr (map (\<lambda>(j, rpc). projr (fst (handleJsonRpc pf pd rpc c request (draws mom j))))
              (enumerate 0 rpcs))"
    by simp
  with b n h show ?thesis
    by (simp add: mcp_dispatch_def)
qed






lemma sample_key: "getSessionKey sample_request = ''203.0.113.7:agent/1.0''"
  by (simp add: getSessionKey_def sample_request_def header_or_def)

lemma session_key_body [simp]:
  "getSessionKey (request\<lparr> req_json := b \<rparr>) = getSessionKey request"
  "getSessionKey (request\<lparr> pathname := u \<rparr>) = getSessionKey request"
  "getSessionKey (request\<lparr> req_method := v \<rparr>) = getSessionKey request"
  by (simp_all add: getSessionKey_def)

lemma sample_started:
  "hdr_agent_token request = None \<Longrightarrow>
   started_on dec gi request mom srv
     = \<lparr> session = loaded srv request, env = bindings srv, console = log_lines srv \<rparr>"
  by (simp add: started_on_def token_step_none)

lemma leave_args_sample [simp]: "leave_args (call_with k ''leave_message'' a) = Some (arguments_or_empty (Some a))"
  by (simp add: leave_args_def call_with_def own_property_def)

lemma ada_arguments [simp]: "arguments_or_empty (Some ada) = ada"
  by (simp add: arguments_or_empty_def ada_def)

lemma ada_name [simp]:
  "get_property ada ''name'' = Some (JStr ''Ada'')"
  "get_property ada ''message'' = Some (JStr ''hi'')"
  by (simp_all add: ada_def own_property_def)

lemma thrown_call:
  "handleJsonRpc sample_platform sample_profile
     (call_with k ''get_projects'' (JObj [(''tag'', JNum 5)])) c request d
   = (Inl (Early (JsError ''params.tag.toLowerCase is not a function'')), c)"
proof -
  let ?rpc = "call_with k ''get_projects'' (JObj [(''tag'', JNum 5)])"
  have m: "rpc_method ?rpc = ''tools/call''" by (simp add: call_with_def)
  have p: "tool_params (rpc_params ?rpc) = Inr (Some (JStr ''get_projects''), JObj [(''tag'', JNum 5)])"
    by (simp add: call_with_def own_property_def arguments_or_empty_def)
  show ?thesis
    unfolding rpc_call_unfold[OF m p]
    by (simp add: handleToolCall_def GATED_TOOLS_def getProjects_tag_not_string enveloped_def)
qed

lemma thrown_batch_fetch:
  "fetch sample_platform sample_decode sample_intent sample_profile
        (sample_request\<lparr> req_json := RpcBatch thrown_batch \<rparr>) sample_moment empty_server
     = (parse_error (JsError ''params.tag.toLowerCase is not a function''),
        empty_server\<lparr> sessionCache :=
          [''203.0.113.7:agent/1.0'' \<mapsto> \<lparr> hasAccess = False, agentToken = None \<rparr>] \<rparr>)"
proof -
  let ?request = "sample_request\<lparr> req_json := RpcBatch thrown_batch \<rparr>"
  let ?c = "\<lparr> session = \<lparr> hasAccess = False, agentToken = None \<rparr>,
              env = bindings empty_server, console = log_lines empty_server \<rparr>"
  have r: "req_method ?request = ''POST''"
    "pathname ?request \<notin> {''/.well-known/mcp.json'', ''/mcp.json'', ''/health'', ''/api/guestbook''}"
    by (simp_all add: sample_request_def)
  have s: "started_on sample_decode sample_intent ?request sample_moment empty_server = ?c"
    by (simp add: sample_started sample_request_def loaded_def empty_server_def)
  have p: "GUESTBOOK (env ?c) \<noteq> None \<longrightarrow> put_error (draws sample_moment 0) = None"
    by (simp add: sample_moment_def sample_draws_def draw1_def)
  have l: "fst (handleJsonRpc sample_platform sample_profile (call_with 1 ''leave_message'' ada)
             ?c req (draws sample_moment 0))
      = Inr (tool_response (rpc_id (call_with 1 ''leave_message'' ada)) (LeaveValue (thanks ''Ada'')))"
    for req
    by (rule rpc_leave[OF leave_args_sample _ p]) simp
  have "rejected_unawaited (started sample_platform sample_profile ?request (draws sample_moment)
          thrown_batch ?c) = Some (JsError ''params.tag.toLowerCase is not a function'')"
    by (simp add: started_def thrown_batch_def enumerate_eq_zip l thrown_call
        rejected_unawaited_def)
  then show ?thesis
    unfolding mcp_route[OF r] s
    by (simp add: mcp_dispatch_def sample_key getSessionKey_def)
       (simp add: sample_request_def header_or_def empty_server_def)
qed




lemma profile_call:
  "handleJsonRpc pf pd (call k ''get_profile'') c request d
     = (Inr (tool_response (IdNumber k) (ProfileValue (profile pd))), c)"
proof -
  have m: "rpc_method (call k ''get_profile'') = ''tools/call''" by (simp add: call_def)
  have p: "tool_params (rpc_params (call k ''get_profile''))
      = Inr (Some (JStr ''get_profile''), JObj [])"
    by (simp add: call_def arguments_or_empty_def)
  show ?thesis
    unfolding rpc_call_unfold[OF m p]
    by (simp add: handleToolCall_def GATED_TOOLS_def getProfile_def enveloped_def call_def)
qed



section \<open>Batches\<close>

lemma unknown_tool_outcome:
  assumes "t \<notin> set (map tool_name TOOLS)"
  shows "handleToolCall pf pd (Some (JStr t)) params c request d
     = (Inr (Error \<lparr> code = - 32601, error_message = ''Unknown tool: '' @ t,
                     error_data = None \<rparr>), c)"
  using assms by (simp add: handleToolCall_def GATED_TOOLS_def TOOLS_def)

lemma unknown_tool_response:
  assumes "rpc_method rpc = ''tools/call''" and "rpc_params rpc = Some toolParams"
    and "get_property toolParams ''name'' = Some (JStr t)" and "t \<notin> set (map tool_name TOOLS)"
  shows "handleJsonRpc pf pd rpc c request d
     = (Inr (ok_response (rpc_id rpc)
          (CallResult [\<lparr> content_type = ''text'',
                         content_text = StringifyError (ErrMessage (''Unknown tool: '' @ t)) \<rparr>]
             (Some True))), c)"
proof -
  have "tool_params (rpc_params rpc)
      = Inr (Some (JStr t), arguments_or_empty (get_property toolParams ''arguments''))"
    using tool_params_object[OF assms(3)] assms(2,3) by simp
  from rpc_call_unfold[OF assms(1) this] show ?thesis
    by (simp add: unknown_tool_outcome[OF assms(4)] enveloped_def)
qed

lemma writing_call:
  "handleJsonRpc pf pd (call k ''get_writing'') c request d
     = (Inr (tool_response (IdNumber k) (WritingValue (writing pd))), c)"
proof -
  have m: "rpc_method (call k ''get_writing'') = ''tools/call''" by (simp add: call_def)
  have p: "tool_params (rpc_params (call k ''get_writing''))
      = Inr (Some (JStr ''get_writing''), JObj [])"
    by (simp add: call_def arguments_or_empty_def)
  show ?thesis
    unfolding rpc_call_unfold[OF m p]
    by (simp add: handleToolCall_def GATED_TOOLS_def getWriting_no_args enveloped_def call_def)
qed

lemma resume_call:
  "handleJsonRpc pf pd (call k ''get_resume'') c request d
     = (Inr (ok_response (IdNumber k)
          (CallResult [\<lparr> content_type = ''text'',
                         content_text = StringifyError (ErrMessage ''Unknown tool: get_resume'') \<rparr>]
             (Some True))), c)"
  using unknown_tool_response[of "call k ''get_resume''" "JObj [(''name'', JStr ''get_resume'')]"
      "''get_resume''" pf pd c request d]
  by (simp add: call_def TOOLS_def)

lemma sample_batch_settles:
  "\<forall>j < length sample_batch. settles pf pd (sample_batch ! j) c request (ds j)"
  by (simp add: sample_batch_def less_Suc_eq settles_def profile_call resume_call writing_call)

lemma typed_string:
  "typed_as ''string'' v \<Longrightarrow> v = None \<or> (\<exists>s. v = Some (JStr s))"
  by (cases "(''string'', v)" rule: typed_as.cases) simp_all

lemma typed_number:
  "typed_as ''number'' v \<Longrightarrow> v = None \<or> (\<exists>n. v = Some (JNum n))"
  by (cases "(''number'', v)" rule: typed_as.cases) simp_all

lemma projects_typed:
  "typed_as ''string'' (get_property args ''tag'') \<Longrightarrow> \<exists>ps. getProjects pf pd args = Inr ps"
  by (auto dest!: typed_string simp add: getProjects_def Let_def)

lemma writing_typed:
  "typed_as ''number'' (get_property args ''limit'') \<Longrightarrow> \<exists>ws. getWriting pf pd args = Inr ws"
  by (auto dest!: typed_number simp add: getWriting_def to_number_def Let_def)

lemma skills_typed:
  "typed_as ''string'' (get_property args ''category'') \<Longrightarrow> \<exists>r. getSkills pd args = Inr r"
  by (auto dest!: typed_string simp add: getSkills_def Let_def)

lemma leave_typed:
  assumes "typed_as ''string'' (get_property args ''name'')"
    and "GUESTBOOK (env c) \<noteq> None \<longrightarrow> put_error d = None"
  shows "\<exists>out. fst (handleToolCall pf pd (Some (JStr ''leave_message'')) args c request d) = Inr out"
proof -
  from typed_string[OF assms(1)] obtain nm where
    "template_json (get_property args ''name'') = Inr nm"
    by auto
  from leave_call[OF this assms(2)] show ?thesis by simp
qed

text \<open>An invocation that conforms to the declared types settles, provided the store takes
  the \<open>put\<close>.\<close>

lemma conforming_settles:
  assumes c: "conforming rpc"
    and p: "GUESTBOOK (env c) \<noteq> None \<longrightarrow> put_error d = None"
  shows "settles pf pd rpc c request d"
proof (cases rpc rule: rpc_cases)
  case other
  from rpc_other_unfold(3)[OF other, of pf pd c request d] show ?thesis
    by (auto simp add: settles_def)
next
  case (throw e)
  with c show ?thesis by (simp add: conforming_def)
next
  case (call tool args)
  from c call have n: "tool \<noteq> None" "typed_as ''string'' tool"
    and ty: "typed_as ''string'' (get_property args ''tag'')"
      "typed_as ''number'' (get_property args ''limit'')"
      "typed_as ''string'' (get_property args ''category'')"
      "typed_as ''string'' (get_property args ''name'')"
    by (auto simp add: conforming_def)
  from typed_string[OF n(2)] n(1) obtain t where t: "tool = Some (JStr t)"
    by auto
  have "\<exists>out. fst (handleToolCall pf pd tool args c request d) = Inr out"
  proof (cases "t = ''leave_message''")
    case True
    with leave_typed[OF ty(4) p] t show ?thesis by simp
  next
    case False
    from projects_typed[OF ty(1)] obtain ps where "getProjects pf pd args = Inr ps" by blast
    moreover from writing_typed[OF ty(2)] obtain ws where "getWriting pf pd args = Inr ws" by blast
    moreover from skills_typed[OF ty(3)] obtain r where "getSkills pd args = Inr r" by blast
    ultimately show ?thesis
      using False t by (simp add: handleToolCall_def)
  qed
  then show ?thesis
    by (auto simp add: settles_def rpc_call_unfold[OF call] enveloped_def
        split: sum.splits ToolOutcome.splits)
qed

text \<open>
  C6, as stated, fails in three places. In the batch of three calls whose second names
  the unknown tool \<open>get_resume\<close>, the first and third responses are the normal payloads,
  but the second is an envelope with a \<open>result\<close> (the message text, marked \<open>isError\<close>) and
  no \<open>error\<close> member, so it reports no method-not-found class: \<open>handleJsonRpc\<close> keeps the
  message of the fault \<open>handleToolCall\<close> returns and drops its code. The batch whose
  second entry is a \<open>tools/call\<close> without \<open>params\<close> is answered by one parse-error
  response for the whole request, not by a response per entry. So is the batch whose
  second entry asks for the projects with the tag \<open>5\<close>: its first entry, a valid
  \<open>leave_message\<close>, gets no response.
\<close>

theorem batch_counterexample:
  "fst (fetch_mcp sample_platform sample_decode sample_intent sample_profile
         (sample_request\<lparr> req_json := RpcBatch sample_batch \<rparr>) sample_moment empty_server)
     = \<lparr> status = 200,
         body = RpcBatchBody
           [ok_response (IdNumber 1)
              (CallResult [\<lparr> content_type = ''text'',
                 content_text = StringifyResult (ProfileValue (profile sample_profile)) \<rparr>] None),
            ok_response (IdNumber 2)
              (CallResult [\<lparr> content_type = ''text'',
                 content_text = StringifyError (ErrMessage ''Unknown tool: get_resume'') \<rparr>]
                 (Some True)),
            ok_response (IdNumber 3)
              (CallResult [\<lparr> content_type = ''text'',
                 content_text = StringifyResult (WritingValue (writing sample_profile)) \<rparr>] None)] \<rparr>
   \<and> \<not> method_not_found
         (ok_response (IdNumber 2)
            (CallResult [\<lparr> content_type = ''text'',
               content_text = StringifyError (ErrMessage ''Unknown tool: get_resume'') \<rparr>]
               (Some True)))
   \<and> fst (fetch_mcp sample_platform sample_decode sample_intent sample_profile
         (sample_request\<lparr> req_json := RpcBatch broken_batch \<rparr>) sample_moment empty_server)
     = parse_error (JsError ''Cannot read properties of undefined (reading 'name')'')
   \<and> fst (fetch_mcp sample_platform sample_decode sample_intent sample_profile
         (sample_request\<lparr> req_json := RpcBatch thrown_batch \<rparr>) sample_moment empty_server)
     = parse_error (JsError ''params.tag.toLowerCase is not a function'')"
proof (intro conjI)
  let ?request = "sample_request\<lparr> req_json := RpcBatch sample_batch \<rparr>"
  let ?c = "started_on sample_decode sample_intent ?request sample_moment empty_server"
  have b: "req_json ?request = RpcBatch sample_batch" by simp
  show "fst (fetch_mcp sample_platform sample_decode sample_intent sample_profile ?request
         sample_moment empty_server)
     = \<lparr> status = 200,
         body = RpcBatchBody
           [ok_response (IdNumber 1)
              (CallResult [\<lparr> content_type = ''text'',
                 content_text = StringifyResult (ProfileValue (profile sample_profile)) \<rparr>] None),
            ok_response (IdNumber 2)
              (CallResult [\<lparr> content_type = ''text'',
                 content_text = StringifyError (ErrMessage ''Unknown tool: get_resume'') \<rparr>]
                 (Some True)),
            ok_response (IdNumber 3)
              (CallResult [\<lparr> content_type = ''text'',
                 content_text = StringifyResult (WritingValue (writing sample_profile)) \<rparr>] None)] \<rparr>"
    unfolding fetch_mcp_unfold batch_settled[OF b sample_batch_settles]
    by (simp add: sample_batch_def enumerate_eq_zip profile_call resume_call writing_call
        tool_response_def)
next
  show "\<not> method_not_found
         (ok_response (IdNumber 2)
            (CallResult [\<lparr> content_type = ''text'',
               content_text = StringifyError (ErrMessage ''Unknown tool: get_resume'') \<rparr>]
               (Some True)))"
    by (simp add: method_not_found_def ok_response_def)
next
  let ?request = "sample_request\<lparr> req_json := RpcBatch broken_batch \<rparr>"
  let ?c = "started_on sample_decode sample_intent ?request sample_moment empty_server"
  have "rejected_unawaited (started sample_platform sample_profile ?request (draws sample_moment)
          broken_batch ?c) = Some (JsError ''Cannot read properties of undefined (reading 'name')'')"
    by (simp add: started_def broken_batch_def enumerate_eq_zip rejected_unawaited_def
        handleJsonRpc_def)
  then show "fst (fetch_mcp sample_platform sample_decode sample_intent sample_profile ?request
         sample_moment empty_server)
     = parse_error (JsError ''Cannot read properties of undefined (reading 'name')'')"
    unfolding fetch_mcp_unfold by (simp add: mcp_dispatch_def)
next
  let ?request = "sample_request\<lparr> req_json := RpcBatch thrown_batch \<rparr>"
  have r: "req_method ?request = ''POST''"
    "pathname ?request \<notin> {''/.well-known/mcp.json'', ''/mcp.json'', ''/health'', ''/api/guestbook''}"
    by (simp_all add: sample_request_def)
  have "fetch_mcp sample_platform sample_decode sample_intent sample_profile ?request
         sample_moment empty_server
      = fetch sample_platform sample_decode sample_intent sample_profile ?request
         sample_moment empty_server"
    by (simp only: mcp_route[OF r] fetch_mcp_unfold)
  with thrown_batch_fetch show "fst (fetch_mcp sample_platform sample_decode sample_intent
         sample_profile ?request sample_moment empty_server)
     = parse_error (JsError ''params.tag.toLowerCase is not a function'')"
    by simp
qed

text \<open>
  C6, amended. For a batch all of whose handlers settle on the state the batch starts
  from (the caller's session after the agent-token block, the bindings), the response is
  the list of the entries' responses in the order of the entries, each with the
  identifier of its entry, and each the response that entry gets when handled alone on
  any context with the same access flag and the same presence of the store, with the
  same fate of the \<open>put\<close>; so no entry depends on another. An entry that names an unknown
  tool gets a successful envelope whose content is the message \<open>Unknown tool: \<dots>\<close>, marked
  \<open>isError\<close>, without an \<open>error\<close> member; the code \<open>-32601\<close> exists only in the value
  \<open>handleToolCall\<close> returns. By \<open>conforming_settles\<close> the handlers of a batch settle
  whenever its entries conform to the declared types and the store takes every \<open>put\<close>.
\<close>

theorem batch_responses:
  assumes b: "req_json request = RpcBatch rpcs"
    and p: "\<forall>j < length rpcs.
              settles pf pd (rpcs ! j) (started_on dec gi request mom srv) request (draws mom j)"
  shows "\<exists>rs. fst (fetch_mcp pf dec gi pd request mom srv)
                 = \<lparr> status = 200, body = RpcBatchBody rs \<rparr>
      \<and> length rs = length rpcs
      \<and> (\<forall>i < length rpcs.
            resp_id (rs ! i) = Some (rpc_id (rpcs ! i))
          \<and> (\<forall>c d. hasAccess (session c)
                      = hasAccess (session (started_on dec gi request mom srv))
                  \<and> (GUESTBOOK (env c) = None) = (GUESTBOOK (bindings srv) = None)
                  \<and> put_error d = put_error (draws mom i)
                \<longrightarrow> fst (handleJsonRpc pf pd (rpcs ! i) c request d) = Inr (rs ! i))
          \<and> (\<forall>toolParams t. rpc_method (rpcs ! i) = ''tools/call''
                  \<and> rpc_params (rpcs ! i) = Some toolParams
                  \<and> get_property toolParams ''name'' = Some (JStr t)
                  \<and> t \<notin> set (map tool_name TOOLS)
                \<longrightarrow> rs ! i = ok_response (rpc_id (rpcs ! i))
                      (CallResult [\<lparr> content_type = ''text'',
                                     content_text = StringifyError
                                       (ErrMessage (''Unknown tool: '' @ t)) \<rparr>] (Some True))
                    \<and> \<not> method_not_found (rs ! i)
                    \<and> (\<forall>params c d. fst (handleToolCall pf pd (Some (JStr t)) params c request d)
                          = Inr (Error \<lparr> code = - 32601,
                                          error_message = ''Unknown tool: '' @ t,
                                          error_data = None \<rparr>))))"
proof -
  let ?c = "started_on dec gi request mom srv"
  define reply where "reply j = fst (handleJsonRpc pf pd (rpcs ! j) ?c request (draws mom j))" for j
  define rs where
    "rs = map (\<lambda>(j, rpc). projr (fst (handleJsonRpc pf pd rpc ?c request (draws mom j))))
            (enumerate 0 rpcs)"
  have f: "fst (fetch_mcp pf dec gi pd request mom srv) = \<lparr> status = 200, body = RpcBatchBody rs \<rparr>"
    unfolding fetch_mcp_unfold batch_settled[OF b p] rs_def by simp
  have len: "length rs = length rpcs" by (simp add: rs_def)
  have each: "resp_id (rs ! i) = Some (rpc_id (rpcs ! i))
      \<and> (\<forall>c d. hasAccess (session c) = hasAccess (session ?c)
              \<and> (GUESTBOOK (env c) = None) = (GUESTBOOK (bindings srv) = None)
              \<and> put_error d = put_error (draws mom i)
            \<longrightarrow> fst (handleJsonRpc pf pd (rpcs ! i) c request d) = Inr (rs ! i))
      \<and> (\<forall>toolParams t. rpc_method (rpcs ! i) = ''tools/call''
              \<and> rpc_params (rpcs ! i) = Some toolParams
              \<and> get_property toolParams ''name'' = Some (JStr t)
              \<and> t \<notin> set (map tool_name TOOLS)
            \<longrightarrow> rs ! i = ok_response (rpc_id (rpcs ! i))
                  (CallResult [\<lparr> content_type = ''text'',
                                 content_text = StringifyError
                                   (ErrMessage (''Unknown tool: '' @ t)) \<rparr>] (Some True))
                \<and> \<not> method_not_found (rs ! i)
                \<and> (\<forall>params c d. fst (handleToolCall pf pd (Some (JStr t)) params c request d)
                      = Inr (Error \<lparr> code = - 32601,
                                      error_message = ''Unknown tool: '' @ t,
                                      error_data = None \<rparr>)))"
    if i: "i < length rpcs" for i
  proof -
    have ri: "rs ! i = projr (reply i)"
      using i by (simp add: rs_def reply_def nth_enumerate_eq)
    have "settles pf pd (rpcs ! i) ?c request (draws mom i)"
      using p i by simp
    then have r1: "reply i = Inr (rs ! i)"
      by (auto simp add: settles_def reply_def ri split: sum.splits)
    have id: "resp_id (rs ! i) = Some (rpc_id (rpcs ! i))"
      using rpc_identifier[of pf pd "rpcs ! i" ?c request "draws mom i" "rs ! i"] r1
      by (simp add: reply_def)
    have ind: "fst (handleJsonRpc pf pd (rpcs ! i) c request d) = Inr (rs ! i)"
      if "hasAccess (session c) = hasAccess (session ?c)
              \<and> (GUESTBOOK (env c) = None) = (GUESTBOOK (bindings srv) = None)
              \<and> put_error d = put_error (draws mom i)" for c d
    proof -
      have "fst (handleJsonRpc pf pd (rpcs ! i) c request d) = reply i"
        unfolding reply_def by (rule rpc_response) (simp_all add: that)
      with r1 show ?thesis by simp
    qed
    have unk: "rs ! i = ok_response (rpc_id (rpcs ! i))
                  (CallResult [\<lparr> content_type = ''text'',
                                 content_text = StringifyError
                                   (ErrMessage (''Unknown tool: '' @ t)) \<rparr>] (Some True))
        \<and> \<not> method_not_found (rs ! i)
        \<and> (\<forall>params c d. fst (handleToolCall pf pd (Some (JStr t)) params c request d)
              = Inr (Error \<lparr> code = - 32601, error_message = ''Unknown tool: '' @ t,
                              error_data = None \<rparr>))"
      if u: "rpc_method (rpcs ! i) = ''tools/call'' \<and> rpc_params (rpcs ! i) = Some toolParams
              \<and> get_property toolParams ''name'' = Some (JStr t)
              \<and> t \<notin> set (map tool_name TOOLS)" for toolParams t
    proof -
      have "reply i = Inr (ok_response (rpc_id (rpcs ! i))
                  (CallResult [\<lparr> content_type = ''text'',
                                 content_text = StringifyError
                                   (ErrMessage (''Unknown tool: '' @ t)) \<rparr>] (Some True)))"
        using u unfolding reply_def by (simp add: unknown_tool_response)
      with r1 have v: "rs ! i = ok_response (rpc_id (rpcs ! i))
                  (CallResult [\<lparr> content_type = ''text'',
                                 content_text = StringifyError
                                   (ErrMessage (''Unknown tool: '' @ t)) \<rparr>] (Some True))"
        by simp
      then have "\<not> method_not_found (rs ! i)"
        by (simp add: method_not_found_def ok_response_def)
      with v u show ?thesis by (simp add: unknown_tool_outcome)
    qed
    from id ind unk show ?thesis by blast
  qed
  from f len each show ?thesis by blast
qed

theorem batch_responses_witness:
  "\<exists>rs. fst (fetch_mcp sample_platform sample_decode sample_intent sample_profile
         (sample_request\<lparr> req_json := RpcBatch sample_batch \<rparr>) sample_moment empty_server)
       = \<lparr> status = 200, body = RpcBatchBody rs \<rparr>
     \<and> length rs = 3
     \<and> resp_id (rs ! 0) = Some (IdNumber 1)
     \<and> resp_id (rs ! 2) = Some (IdNumber 3)
     \<and> rs ! 1 = ok_response (IdNumber 2)
           (CallResult [\<lparr> content_type = ''text'',
              content_text = StringifyError (ErrMessage ''Unknown tool: get_resume'') \<rparr>]
              (Some True))
     \<and> fst (handleJsonRpc sample_platform sample_profile (call 3 ''get_writing'') (fresh_ctx (Some sample_store))
           (sample_request\<lparr> req_json := RpcBatch sample_batch \<rparr>) draw2) = Inr (rs ! 2)"
proof -
  let ?request = "sample_request\<lparr> req_json := RpcBatch sample_batch \<rparr>"
  let ?c = "started_on sample_decode sample_intent ?request sample_moment empty_server"
  have b: "req_json ?request = RpcBatch sample_batch"
    by simp
  have p: "\<forall>j < length sample_batch.
      settles sample_platform sample_profile (sample_batch ! j) ?c ?request (draws sample_moment j)"
    by (rule sample_batch_settles)
  have u: "rpc_method (sample_batch ! 1) = ''tools/call''
      \<and> rpc_params (sample_batch ! 1) = Some (JObj [(''name'', JStr ''get_resume'')])
      \<and> get_property (JObj [(''name'', JStr ''get_resume'')]) ''name'' = Some (JStr ''get_resume'')
      \<and> ''get_resume'' \<notin> set (map tool_name TOOLS)"
    by (simp add: sample_batch_def call_def TOOLS_def)
  have i: "rpc_id (sample_batch ! 0) = IdNumber 1" "rpc_id (sample_batch ! 1) = IdNumber 2"
      "rpc_id (sample_batch ! 2) = IdNumber 3" "length sample_batch = 3"
      "sample_batch ! 2 = call 3 ''get_writing''"
    by (simp_all add: sample_batch_def call_def)
  have a: "hasAccess (session (fresh_ctx (Some sample_store))) = hasAccess (session ?c)
      \<and> (GUESTBOOK (env (fresh_ctx (Some sample_store))) = None)
            = (GUESTBOOK (bindings empty_server) = None)
      \<and> put_error draw2 = put_error (draws sample_moment 2)"
    by (simp add: fresh_ctx_def sample_started sample_request_def loaded_def empty_server_def
        sample_moment_def sample_draws_def)
  from batch_responses[OF b p]
  obtain rs where w: "fst (fetch_mcp sample_platform sample_decode sample_intent sample_profile
         ?request sample_moment empty_server) = \<lparr> status = 200, body = RpcBatchBody rs \<rparr>
      \<and> length rs = length sample_batch
      \<and> (\<forall>i < length sample_batch.
            resp_id (rs ! i) = Some (rpc_id (sample_batch ! i))
          \<and> (\<forall>c d. hasAccess (session c) = hasAccess (session ?c)
                  \<and> (GUESTBOOK (env c) = None) = (GUESTBOOK (bindings empty_server) = None)
                  \<and> put_error d = put_error (draws sample_moment i)
                \<longrightarrow> fst (handleJsonRpc sample_platform sample_profile (sample_batch ! i) c
                           ?request d) = Inr (rs ! i))
          \<and> (\<forall>toolParams t. rpc_method (sample_batch ! i) = ''tools/call''
                  \<and> rpc_params (sample_batch ! i) = Some toolParams
                  \<and> get_property toolParams ''name'' = Some (JStr t)
                  \<and> t \<notin> set (map tool_name TOOLS)
                \<longrightarrow> rs ! i = ok_response (rpc_id (sample_batch ! i))
                      (CallResult [\<lparr> content_type = ''text'',
                                     content_text = StringifyError
                                       (ErrMessage (''Unknown tool: '' @ t)) \<rparr>] (Some True))
                    \<and> \<not> method_not_found (rs ! i)
                    \<and> (\<forall>params c d. fst (handleToolCall sample_platform sample_profile
                              (Some (JStr t)) params c ?request d)
                          = Inr (Error \<lparr> code = - 32601,
                                          error_message = ''Unknown tool: '' @ t,
                                          error_data = None \<rparr>))))"
    ..
  note f = w[THEN conjunct1]
  note l = w[THEN conjunct2, THEN conjunct1]
  note each = w[THEN conjunct2, THEN conjunct2, rule_format]
  have j: "0 < length sample_batch" "1 < length sample_batch" "2 < length sample_batch"
    by (simp_all add: i(4))
  have "rs ! 1 = ok_response (IdNumber 2)
           (CallResult [\<lparr> content_type = ''text'',
              content_text = StringifyError (ErrMessage ''Unknown tool: get_resume'') \<rparr>]
              (Some True))"
    using each[OF j(2), THEN conjunct2, THEN conjunct2, rule_format, OF u, THEN conjunct1] i
    by simp
  moreover have "resp_id (rs ! 0) = Some (IdNumber 1)" "resp_id (rs ! 2) = Some (IdNumber 3)"
    using each[OF j(1), THEN conjunct1] each[OF j(3), THEN conjunct1] i by simp_all
  moreover have "fst (handleJsonRpc sample_platform sample_profile (call 3 ''get_writing'')
      (fresh_ctx (Some sample_store)) ?request draw2) = Inr (rs ! 2)"
    using each[OF j(3), THEN conjunct2, THEN conjunct1, rule_format, OF a] i by simp
  ultimately show ?thesis using f l i(4) by auto
qed

section \<open>Access is only ever gained\<close>

text \<open>
  C8. Over any sequence of requests served one after the other, a session that is in
  \<open>sessionCache\<close> with access stays there with access: no request removes a session or
  clears its flag. Granting again changes nothing that can be observed: a
  \<open>leave_message\<close> call on a session with access returns the same session, and the
  agent-token block leaves the flag set, touching at most the recorded token, which no
  code reads.
\<close>

theorem access_monotone:
  "(sessionCache srv k = Some s \<and> hasAccess s \<longrightarrow>
      (\<exists>s'. sessionCache (serve pf dec gi pd reqs srv) k = Some s' \<and> hasAccess s'))
   \<and> (hasAccess (session c) \<longrightarrow>
        session (snd (handleToolCall pf pd (Some (JStr ''leave_message'')) params c request d))
          = session c)
   \<and> (hasAccess s \<longrightarrow>
        hasAccess (fst (agent_token_step dec gi now tok s con))
        \<and> (fst (agent_token_step dec gi now tok s con) = s
            \<or> fst (agent_token_step dec gi now tok s con) = s\<lparr> agentToken := tok \<rparr>))"
proof (intro conjI impI)
  assume "sessionCache srv k = Some s \<and> hasAccess s"
  then show "\<exists>s'. sessionCache (serve pf dec gi pd reqs srv) k = Some s' \<and> hasAccess s'"
    using serve_keeps_access by blast
next
  assume "hasAccess (session c)"
  then show "session (snd (handleToolCall pf pd (Some (JStr ''leave_message'')) params c request d))
      = session c"
    using tool_call_session[of pf pd "Some (JStr ''leave_message'')" params c request d] by auto
next
  assume "hasAccess s"
  then show "hasAccess (fst (agent_token_step dec gi now tok s con))"
    by (rule token_keeps_access)
next
  assume a: "hasAccess s"
  have "s\<lparr> hasAccess := True, agentToken := x \<rparr> = s\<lparr> agentToken := x \<rparr>" for x
    using a by simp
  then show "fst (agent_token_step dec gi now tok s con) = s
      \<or> fst (agent_token_step dec gi now tok s con) = s\<lparr> agentToken := tok \<rparr>"
    using token_step_session[of dec gi now tok s con] by auto
qed

theorem access_monotone_witness:
  "(\<exists>s'. sessionCache (serve sample_platform sample_decode sample_intent sample_profile
            sample_traffic granted_server) ''203.0.113.7:agent/1.0'' = Some s' \<and> hasAccess s')
   \<and> session (snd (handleToolCall sample_platform sample_profile (Some (JStr ''leave_message'')) ada
         ((fresh_ctx None)\<lparr> session := \<lparr> hasAccess = True, agentToken = Some ''good-token'' \<rparr> \<rparr>)
         sample_request draw1))
       = \<lparr> hasAccess = True, agentToken = Some ''good-token'' \<rparr>
   \<and> hasAccess (fst (agent_token_step sample_decode sample_intent 0 (Some ''good-token'')
         \<lparr> hasAccess = True, agentToken = None \<rparr> []))"
proof -
  have h: "sessionCache granted_server ''203.0.113.7:agent/1.0''
        = Some \<lparr> hasAccess = True, agentToken = None \<rparr>
      \<and> hasAccess \<lparr> hasAccess = True, agentToken = None \<rparr>"
    by (simp add: granted_server_def)
  have g: "hasAccess (session ((fresh_ctx None)\<lparr> session :=
      \<lparr> hasAccess = True, agentToken = Some ''good-token'' \<rparr> \<rparr>))"
    by simp
  from access_monotone[of granted_server "''203.0.113.7:agent/1.0''"
      "\<lparr> hasAccess = True, agentToken = None \<rparr>" sample_platform sample_decode sample_intent
      sample_profile sample_traffic
      "(fresh_ctx None)\<lparr> session := \<lparr> hasAccess = True, agentToken = Some ''good-token'' \<rparr> \<rparr>"
      ada sample_request draw1 0 "Some ''good-token''" "[]"] h g
  show ?thesis by simp
qed

section \<open>The agent token\<close>

text \<open>
  C3. Let a request to the MCP endpoint carry a non-empty \<open>Agent-Token\<close>. If the token
  decodes and an intent is read from it, the request is served exactly as the same
  request without the token would be on a server where the caller's session already has
  access (and the visit is logged): the grant precedes every entry of the body, so no
  response of the request, single or batched, is a denial. If decoding throws, reading
  the intent throws, or there is no intent, the response, the session cache and the
  bindings are those of the same request without the token: the failure shows only in
  the console.
\<close>

theorem agent_token_effect:
  assumes tok: "hdr_agent_token request = Some t" and ne: "t \<noteq> []"
  shows "(dec t = Inr dcd \<and> gi dcd = Inr (Some intent) \<longrightarrow>
            fetch_mcp pf dec gi pd request mom srv
              = fetch_mcp pf dec gi pd (request\<lparr> hdr_agent_token := None \<rparr>) mom
                  (srv\<lparr> sessionCache := (sessionCache srv)(getSessionKey request \<mapsto>
                           (loaded srv request)\<lparr> hasAccess := True, agentToken := Some t \<rparr>),
                        log_lines := log_lines srv @ [AgentVisitLog intent (visit_time mom)] \<rparr>)
            \<and> (\<forall>r. body (fst (fetch_mcp pf dec gi pd request mom srv)) = RpcBody r
                  \<longrightarrow> \<not> is_denial r)
            \<and> (\<forall>rs. body (fst (fetch_mcp pf dec gi pd request mom srv)) = RpcBatchBody rs
                  \<longrightarrow> (\<forall>r \<in> set rs. \<not> is_denial r)))
       \<and> (dec t = Inl e \<or> (dec t = Inr dcd \<and> gi dcd = Inl e)
            \<or> (dec t = Inr dcd \<and> gi dcd = Inr None) \<longrightarrow>
            fst (agent_token_step dec gi (visit_time mom) (Some t) (loaded srv request)
                   (log_lines srv)) = loaded srv request
            \<and> fst (fetch_mcp pf dec gi pd request mom srv)
              = fst (fetch_mcp pf dec gi pd (request\<lparr> hdr_agent_token := None \<rparr>) mom srv)
            \<and> sessionCache (snd (fetch_mcp pf dec gi pd request mom srv))
              = sessionCache (snd (fetch_mcp pf dec gi pd
                                     (request\<lparr> hdr_agent_token := None \<rparr>) mom srv))
            \<and> bindings (snd (fetch_mcp pf dec gi pd request mom srv))
              = bindings (snd (fetch_mcp pf dec gi pd
                                 (request\<lparr> hdr_agent_token := None \<rparr>) mom srv)))"
proof (intro conjI impI)
  let ?request' = "request\<lparr> hdr_agent_token := None \<rparr>"
  let ?s1 = "(loaded srv request)\<lparr> hasAccess := True, agentToken := Some t \<rparr>"
  let ?con1 = "log_lines srv @ [AgentVisitLog intent (visit_time mom)]"
  let ?srv' = "srv\<lparr> sessionCache := (sessionCache srv)(getSessionKey request \<mapsto> ?s1),
                     log_lines := ?con1 \<rparr>"
  let ?c1 = "\<lparr> session = ?s1, env = bindings srv, console = ?con1 \<rparr>"
  assume v: "dec t = Inr dcd \<and> gi dcd = Inr (Some intent)"
  have l: "fetch_mcp pf dec gi pd request mom srv = mcp_dispatch pf pd request mom srv ?c1"
    using v tok ne by (simp add: fetch_mcp_unfold started_on_def token_step_valid)
  have "loaded ?srv' ?request' = ?s1"
    by (simp add: loaded_def session_key_token)
  then have "fetch_mcp pf dec gi pd ?request' mom ?srv'
      = mcp_dispatch pf pd ?request' mom ?srv' ?c1"
    by (simp add: fetch_mcp_unfold started_on_def token_step_none)
  also have "\<dots> = mcp_dispatch pf pd request mom srv ?c1"
    by (simp only: mcp_dispatch_token mcp_dispatch_server)
  finally show "fetch_mcp pf dec gi pd request mom srv
      = fetch_mcp pf dec gi pd ?request' mom ?srv'"
    using l by simp
  have a: "hasAccess (session ?c1)" by simp
  from mcp_dispatch_no_denial[OF a, of pf pd request mom srv]
  show "\<forall>r. body (fst (fetch_mcp pf dec gi pd request mom srv)) = RpcBody r \<longrightarrow> \<not> is_denial r"
    and "\<forall>rs. body (fst (fetch_mcp pf dec gi pd request mom srv)) = RpcBatchBody rs
                  \<longrightarrow> (\<forall>r \<in> set rs. \<not> is_denial r)"
    unfolding l by blast+
next
  let ?request' = "request\<lparr> hdr_agent_token := None \<rparr>"
  let ?t = "agent_token_step dec gi (visit_time mom) (Some t) (loaded srv request) (log_lines srv)"
  let ?c = "\<lparr> session = fst ?t, env = bindings srv, console = snd ?t \<rparr>"
  let ?plain = "\<lparr> session = loaded srv request, env = bindings srv, console = log_lines srv \<rparr>"
  assume i: "dec t = Inl e \<or> (dec t = Inr dcd \<and> gi dcd = Inl e)
      \<or> (dec t = Inr dcd \<and> gi dcd = Inr None)"
  have l: "fetch_mcp pf dec gi pd request mom srv = mcp_dispatch pf pd request mom srv ?c"
    using tok by (simp add: fetch_mcp_unfold started_on_def)
  have "fetch_mcp pf dec gi pd ?request' mom srv = mcp_dispatch pf pd ?request' mom srv ?plain"
    by (simp add: fetch_mcp_unfold started_on_def token_step_none loaded_def session_key_token)
  then have r: "fetch_mcp pf dec gi pd ?request' mom srv = mcp_dispatch pf pd request mom srv ?plain"
    by (simp only: mcp_dispatch_token)
  have s: "session ?c = session ?plain"
    using token_step_invalid[where dec=dec and gi=gi and t=t and e=e and dcd=dcd, OF i] by simp
  have e: "env ?c = env ?plain" by simp
  show "fst ?t = loaded srv request"
    by (rule token_step_invalid[where dec=dec and gi=gi and t=t and e=e and dcd=dcd, OF i])
  from mcp_dispatch_console[OF s e, of pf pd request mom srv]
  show "fst (fetch_mcp pf dec gi pd request mom srv)
          = fst (fetch_mcp pf dec gi pd ?request' mom srv)"
    and "sessionCache (snd (fetch_mcp pf dec gi pd request mom srv))
          = sessionCache (snd (fetch_mcp pf dec gi pd ?request' mom srv))"
    and "bindings (snd (fetch_mcp pf dec gi pd request mom srv))
          = bindings (snd (fetch_mcp pf dec gi pd ?request' mom srv))"
    unfolding l r by blast+
qed

lemma experience_call:
  "handleJsonRpc pf pd (call k ''get_experience'') c request d
     = (Inr (if hasAccess (session c)
             then tool_response (IdNumber k) (ExperienceValue (experience pd))
             else ok_response (IdNumber k)
               (CallResult [\<lparr> content_type = ''text'',
                              content_text = StringifyError (ErrData
                                \<lparr> hint = ''Call leave_message() first to introduce yourself, or include an Agent-Token header.'',
                                  gated_tool = Some (JStr ''get_experience''),
                                  free_tools = FREE_TOOLS \<rparr>) \<rparr>] (Some True))), c)"
proof -
  have m: "rpc_method (call k ''get_experience'') = ''tools/call''" by (simp add: call_def)
  have p: "tool_params (rpc_params (call k ''get_experience''))
      = Inr (Some (JStr ''get_experience''), JObj [])"
    by (simp add: call_def arguments_or_empty_def)
  show ?thesis
    unfolding rpc_call_unfold[OF m p]
    by (simp add: handleToolCall_def GATED_TOOLS_def getExperience_def enveloped_def call_def
        denial_def)
qed

lemma eval_plain:
  "fst (fetch_mcp sample_platform sample_decode sample_intent sample_profile
         ((token_request t)\<lparr> hdr_agent_token := None \<rparr>) sample_moment empty_server)
     = \<lparr> status = 200,
         body = RpcBody (ok_response (IdNumber 5)
           (CallResult [\<lparr> content_type = ''text'',
                          content_text = StringifyError (ErrData
                            \<lparr> hint = ''Call leave_message() first to introduce yourself, or include an Agent-Token header.'',
                              gated_tool = Some (JStr ''get_experience''),
                              free_tools = FREE_TOOLS \<rparr>) \<rparr>] (Some True))) \<rparr>"
proof -
  have b: "req_json ((token_request t)\<lparr> hdr_agent_token := None \<rparr>)
      = RpcSingle (call 5 ''get_experience'')"
    by (simp add: token_request_def)
  show ?thesis
    unfolding fetch_mcp_unfold single_unfold[OF b]
    by (simp add: experience_call sample_started loaded_def empty_server_def)
qed

lemma eval_granted:
  "fst (fetch_mcp sample_platform sample_decode sample_intent sample_profile
         ((token_request t)\<lparr> hdr_agent_token := None \<rparr>) sample_moment
         (empty_server\<lparr> sessionCache := (sessionCache empty_server)(getSessionKey (token_request t) \<mapsto>
                           (loaded empty_server (token_request t))\<lparr> hasAccess := True, agentToken := Some t \<rparr>),
                        log_lines := l \<rparr>))
     = \<lparr> status = 200,
         body = RpcBody (ok_response (IdNumber 5)
           (CallResult [\<lparr> content_type = ''text'',
                          content_text = StringifyResult (ExperienceValue (experience sample_profile)) \<rparr>]
              None)) \<rparr>"
proof -
  have b: "req_json ((token_request t)\<lparr> hdr_agent_token := None \<rparr>)
      = RpcSingle (call 5 ''get_experience'')"
    by (simp add: token_request_def)
  show ?thesis
    unfolding fetch_mcp_unfold single_unfold[OF b]
    by (simp add: experience_call sample_started loaded_def session_key_token tool_response_def)
qed

theorem agent_token_effect_witness:
  "fst (fetch_mcp sample_platform sample_decode sample_intent sample_profile
         (token_request ''good-token'') sample_moment empty_server)
     = \<lparr> status = 200,
         body = RpcBody (ok_response (IdNumber 5)
           (CallResult [\<lparr> content_type = ''text'',
                          content_text = StringifyResult (ExperienceValue (experience sample_profile)) \<rparr>]
              None)) \<rparr>
   \<and> fst (fetch_mcp sample_platform sample_decode sample_intent sample_profile
         (token_request ''not-a-token'') sample_moment empty_server)
     = \<lparr> status = 200,
         body = RpcBody (ok_response (IdNumber 5)
           (CallResult [\<lparr> content_type = ''text'',
                          content_text = StringifyError (ErrData
                            \<lparr> hint = ''Call leave_message() first to introduce yourself, or include an Agent-Token header.'',
                              gated_tool = Some (JStr ''get_experience''),
                              free_tools = FREE_TOOLS \<rparr>) \<rparr>] (Some True))) \<rparr>"
proof -
  let ?intent = "\<lparr> intentId = ''recruiting-scan'',
                   goal = ''Find candidates for senior engineering role'',
                   mode = ''read-only'' \<rparr>"
  have g: "hdr_agent_token (token_request ''good-token'') = Some ''good-token''"
      "''good-token'' \<noteq> []"
      "sample_decode ''good-token'' = Inr 0 \<and> sample_intent 0 = Inr (Some ?intent)"
    by (simp_all add: token_request_def sample_decode_def sample_intent_def)
  have b: "hdr_agent_token (token_request ''not-a-token'') = Some ''not-a-token''"
      "''not-a-token'' \<noteq> []"
      "sample_decode ''not-a-token'' = Inl (JsError ''Invalid token format'')"
    by (simp_all add: token_request_def sample_decode_def)
  from agent_token_effect[where request="token_request ''good-token''" and t="''good-token''"
      and dec=sample_decode and gi=sample_intent and dcd=0 and intent="?intent"
      and pf=sample_platform and pd=sample_profile and mom=sample_moment and srv=empty_server,
      OF g(1,2)] g(3)
  have w1: "fst (fetch_mcp sample_platform sample_decode sample_intent sample_profile
         (token_request ''good-token'') sample_moment empty_server)
     = \<lparr> status = 200,
         body = RpcBody (ok_response (IdNumber 5)
           (CallResult [\<lparr> content_type = ''text'',
                          content_text = StringifyResult (ExperienceValue (experience sample_profile)) \<rparr>]
              None)) \<rparr>"
    by (simp add: eval_granted)
  from agent_token_effect[where request="token_request ''not-a-token''" and t="''not-a-token''"
      and dec=sample_decode and gi=sample_intent and e="JsError ''Invalid token format''"
      and pf=sample_platform and pd=sample_profile and mom=sample_moment and srv=empty_server,
      OF b(1,2)] b(3)
  have w2: "fst (fetch_mcp sample_platform sample_decode sample_intent sample_profile
         (token_request ''not-a-token'') sample_moment empty_server)
     = \<lparr> status = 200,
         body = RpcBody (ok_response (IdNumber 5)
           (CallResult [\<lparr> content_type = ''text'',
                          content_text = StringifyError (ErrData
                            \<lparr> hint = ''Call leave_message() first to introduce yourself, or include an Agent-Token header.'',
                              gated_tool = Some (JStr ''get_experience''),
                              free_tools = FREE_TOOLS \<rparr>) \<rparr>] (Some True))) \<rparr>"
    by (simp add: eval_plain)
  from w1 w2 show ?thesis by simp
qed

section \<open>The guestbook listing\<close>

lemma collect_entries_eq:
  "collect_entries kv ks acc =
     acc @ concat (map (\<lambda>k. case kv_get kv k of Some v \<Rightarrow> [(kv_value v)\<lparr> ip_hash := None \<rparr>] | None \<Rightarrow> []) ks)"
  by (induction ks arbitrary: acc) (auto split: option.splits)

lemma collect_entries_present:
  assumes "set ks \<subseteq> fst ` set kv"
  shows "collect_entries kv ks [] = map (\<lambda>k. (kv_value (the (map_of kv k)))\<lparr> ip_hash := None \<rparr>) ks"
proof -
  have "\<forall>k \<in> set ks. \<exists>v. map_of kv k = Some v"
    using assms by (metis (no_types, lifting) domD dom_map_of_conv_image_fst subsetD)
  then have "concat (map (\<lambda>k. case kv_get kv k of Some v \<Rightarrow> [(kv_value v)\<lparr> ip_hash := None \<rparr>] | None \<Rightarrow> []) ks)
      = map (\<lambda>k. (kv_value (the (map_of kv k)))\<lparr> ip_hash := None \<rparr>) ks"
    by (induction ks) (auto simp: kv_get_def)
  then show ?thesis by (simp add: collect_entries_eq)
qed

lemma listed_values:
  assumes "distinct (map fst kv)"
  shows "map (\<lambda>k. f (the (map_of kv k))) (filter P (map fst kv))
       = map (\<lambda>(k, v). f v) (filter (\<lambda>(k, v). P k) kv)"
  using assms
proof (induction kv)
  case Nil
  then show ?case by simp
next
  case (Cons a kv)
  obtain k v where a: "a = (k, v)" by (cases a)
  have "map (\<lambda>k'. f (the (map_of ((k, v) # kv) k'))) (filter P (map fst kv))
      = map (\<lambda>k'. f (the (map_of kv k'))) (filter P (map fst kv))"
    using Cons.prems a by (intro map_cong) auto
  with Cons a show ?case by auto
qed

lemma prefixed_keys:
  "length (filter P (map fst kv)) = length (filter (\<lambda>(k, v). P k) kv)"
  by (induction kv) auto

lemma kv_list_keys: "set (kv_list pfx kv) \<subseteq> fst ` set kv"
proof -
  have "set (kv_list pfx kv) \<subseteq> set (sort (filter (\<lambda>k. startsWith k pfx) (map fst kv)))"
    unfolding kv_list_def by (rule set_take_subset)
  then show ?thesis by auto
qed

text \<open>The listing never holds more than one page of keys.\<close>

lemma listing_length:
  assumes "GUESTBOOK e = Some kv"
  shows "length (listed (fetch_guestbook_get e None))
     = min kv_page (length (filter (\<lambda>(k, v). startsWith k ''entry:'') kv))"
proof -
  have "length (collect_entries kv (kv_list ''entry:'' kv) []) = length (kv_list ''entry:'' kv)"
    by (simp add: collect_entries_present[OF kv_list_keys])
  also have "\<dots> = min kv_page (length (filter (\<lambda>(k, v). startsWith k ''entry:'') kv))"
    by (simp add: kv_list_def comp_def case_prod_unfold min.commute)
  finally show ?thesis
    using assms by (simp add: fetch_guestbook_get_def listed_def newest_first_def)
qed

lemma guestbook_get_listing:
  assumes g: "GUESTBOOK e = Some kv" and d: "distinct (map fst kv)"
    and p: "length (filter (\<lambda>(k, v). startsWith k ''entry:'') kv) \<le> kv_page"
  shows "\<exists>es. fetch_guestbook_get e None = \<lparr> status = 200, body = EntriesBody es None \<rparr>
      \<and> mset es = mset (map (\<lambda>(k, v). (kv_value v)\<lparr> ip_hash := None \<rparr>)
                          (filter (\<lambda>(k, v). startsWith k ''entry:'') kv))
      \<and> sorted_wrt (\<lambda>a b. timestamp a \<ge> timestamp b) es
      \<and> (\<forall>x \<in> set es. ip_hash x = None)"
proof -
  let ?P = "\<lambda>k. startsWith k ''entry:''"
  let ?strip = "\<lambda>v. (kv_value v)\<lparr> ip_hash := None \<rparr>"
  let ?keys = "kv_list ''entry:'' kv"
  let ?es = "newest_first (collect_entries kv ?keys [])"
  have page: "?keys = sort (filter ?P (map fst kv))"
    using p by (simp add: kv_list_def comp_def case_prod_unfold)
  have c: "collect_entries kv ?keys [] = map (\<lambda>k. ?strip (the (map_of kv k))) ?keys"
    using collect_entries_present[OF kv_list_keys] .
  have "mset (map (\<lambda>k. ?strip (the (map_of kv k))) ?keys)
      = image_mset (\<lambda>k. ?strip (the (map_of kv k))) (mset (filter ?P (map fst kv)))"
    by (simp add: page)
  also have "\<dots> = mset (map (\<lambda>k. ?strip (the (map_of kv k))) (filter ?P (map fst kv)))"
    by simp
  also have "\<dots> = mset (map (\<lambda>(k, v). ?strip v) (filter (\<lambda>(k, v). ?P k) kv))"
    using listed_values[OF d, of ?strip ?P] by simp
  finally have m: "mset ?es = mset (map (\<lambda>(k, v). ?strip v) (filter (\<lambda>(k, v). ?P k) kv))"
    by (simp add: newest_first_def c)
  have "sorted (map (\<lambda>e. - int (timestamp e)) ?es)"
    by (simp add: newest_first_def)
  then have s: "sorted_wrt (\<lambda>a b. timestamp a \<ge> timestamp b) ?es"
    by (simp add: sorted_map)
  have "set ?es = set (collect_entries kv ?keys [])"
    by (simp add: newest_first_def)
  then have i: "\<forall>x \<in> set ?es. ip_hash x = None"
    by (auto simp: c)
  have f: "fetch_guestbook_get e None = \<lparr> status = 200, body = EntriesBody ?es None \<rparr>"
    using g by (simp add: fetch_guestbook_get_def)
  from f m s i show ?thesis by blast
qed

lemma listing_route:
  "req_method request = ''GET'' \<Longrightarrow> pathname request = ''/api/guestbook'' \<Longrightarrow>
   fetch pf dec gi pd request mom srv = (fetch_guestbook_get (bindings srv) (read_error mom), srv)"
  by (simp add: fetch_def)

lemma sample_listing:
  "kv_list ''entry:'' sample_store = [''entry:1700000000001:aaa'', ''entry:1700000000502:bbb'']"
  by (simp add: kv_list_def sample_store_def startsWith_def kv_page_def)

lemma sample_get:
  "fetch_guestbook_get \<lparr> GUESTBOOK = Some sample_store, CORS_ORIGIN = None \<rparr> None
     = \<lparr> status = 200, body = EntriesBody sample_public None \<rparr>"
  by (simp add: fetch_guestbook_get_def sample_listing)
     (simp add: sample_store_def kv_get_def newest_first_def sample_public_def)

lemma full_store_prefixed:
  "filter (\<lambda>(k, v). startsWith k ''entry:'') full_store = full_store"
  by (simp add: full_store_def full_item_def startsWith_def)

text \<open>
  C9, as stated, fails in two places. When reading the store throws, the listing is
  answered with status 500 and no entries, although the store holds two. And
  \<open>GUESTBOOK.list\<close> is called once, without following its cursor, so a store that holds
  1001 entries is listed with 1000 of them.
\<close>

theorem guestbook_listing_counterexample:
  "fetch sample_platform sample_decode sample_intent sample_profile listing_request
     (sample_moment\<lparr> read_error := Some (JsError ''KV GET failed'') \<rparr>) (server_with sample_store)
     = (\<lparr> status = 500, body = EntriesBody [] (Some ''Failed to fetch entries'') \<rparr>,
        server_with sample_store)
   \<and> length (guestbook_entries (bindings (server_with full_store))) = 1001
   \<and> length (listed (fst (fetch sample_platform sample_decode sample_intent sample_profile
        listing_request sample_moment (server_with full_store)))) = 1000"
proof (intro conjI)
  have r: "req_method listing_request = ''GET''" "pathname listing_request = ''/api/guestbook''"
    by (simp_all add: listing_request_def)
  show "fetch sample_platform sample_decode sample_intent sample_profile listing_request
     (sample_moment\<lparr> read_error := Some (JsError ''KV GET failed'') \<rparr>) (server_with sample_store)
     = (\<lparr> status = 500, body = EntriesBody [] (Some ''Failed to fetch entries'') \<rparr>,
        server_with sample_store)"
    by (simp add: listing_route[OF r] fetch_guestbook_get_def server_with_def)
  show "length (guestbook_entries (bindings (server_with full_store))) = 1001"
    by (simp add: guestbook_entries_def server_with_def full_store_def)
  have g: "GUESTBOOK (bindings (server_with full_store)) = Some full_store"
    by (simp add: server_with_def)
  have "length full_store = 1001"
    by (simp add: full_store_def)
  then show "length (listed (fst (fetch sample_platform sample_decode sample_intent sample_profile
        listing_request sample_moment (server_with full_store)))) = 1000"
    by (simp add: listing_route[OF r] sample_moment_def listing_length[OF g] full_store_prefixed
        kv_page_def)
qed

text \<open>
  C9, amended. With the \<open>GUESTBOOK\<close> binding present (its keys distinct, as in any
  key-value store), when reading the store does not throw and the store holds no more
  entries under the prefix \<open>entry:\<close> than one call of \<open>list\<close> returns, \<open>GET /api/guestbook\<close>
  leaves the server as it is and answers with a list that holds, with multiplicity,
  exactly the stored entries under the prefix \<open>entry:\<close>, each without its \<open>ip_hash\<close>, in
  descending order of timestamp.
\<close>

theorem guestbook_listing:
  assumes m: "req_method request = ''GET''" and u: "pathname request = ''/api/guestbook''"
    and g: "GUESTBOOK (bindings srv) = Some kv" and d: "distinct (map fst kv)"
    and f: "read_error mom = None"
    and p: "length (filter (\<lambda>(k, v). startsWith k ''entry:'') kv) \<le> kv_page"
  shows "\<exists>es. fetch pf dec gi pd request mom srv
                 = (\<lparr> status = 200, body = EntriesBody es None \<rparr>, srv)
      \<and> mset es = mset (map (\<lambda>(k, v). (kv_value v)\<lparr> ip_hash := None \<rparr>)
                          (filter (\<lambda>(k, v). startsWith k ''entry:'') kv))
      \<and> sorted_wrt (\<lambda>a b. timestamp a \<ge> timestamp b) es
      \<and> (\<forall>x \<in> set es. ip_hash x = None)"
proof -
  have "fetch pf dec gi pd request mom srv = (fetch_guestbook_get (bindings srv) None, srv)"
    using f by (simp add: listing_route[OF m u])
  with guestbook_get_listing[OF g d p] show ?thesis by auto
qed

theorem guestbook_listing_witness:
  "fetch sample_platform sample_decode sample_intent sample_profile listing_request sample_moment
     (server_with sample_store)
     = (\<lparr> status = 200, body = EntriesBody sample_public None \<rparr>, server_with sample_store)
   \<and> mset sample_public = mset (map (\<lambda>(k, v). (kv_value v)\<lparr> ip_hash := None \<rparr>)
                          (filter (\<lambda>(k, v). startsWith k ''entry:'') sample_store))
   \<and> sorted_wrt (\<lambda>a b. timestamp a \<ge> timestamp b) sample_public
   \<and> list_all (\<lambda>x. ip_hash x = None) sample_public"
proof -
  have h: "req_method listing_request = ''GET''" "pathname listing_request = ''/api/guestbook''"
      "GUESTBOOK (bindings (server_with sample_store)) = Some sample_store"
      "distinct (map fst sample_store)"
      "read_error sample_moment = None"
      "length (filter (\<lambda>(k, v). startsWith k ''entry:'') sample_store) \<le> kv_page"
    by (simp_all add: listing_request_def server_with_def sample_store_def sample_moment_def
        kv_page_def)
  have v: "fetch sample_platform sample_decode sample_intent sample_profile listing_request
      sample_moment (server_with sample_store)
      = (\<lparr> status = 200, body = EntriesBody sample_public None \<rparr>, server_with sample_store)"
    by (simp add: listing_route[OF h(1,2)] sample_moment_def server_with_def sample_get)
  from guestbook_listing[OF h, of sample_platform sample_decode sample_intent sample_profile] v
  show ?thesis by (auto simp: list_all_iff)
qed

section \<open>\<open>get_skills\<close> and inherited property names\<close>

lemma get_skills_cases:
  "getSkills pd (JObj [(''category'', JStr c)]) =
     Inr (if c \<noteq> [] \<and> own_property (skills pd) c \<noteq> None
          then OneKey c (map_option Own (own_property (skills pd) c))
          else if c \<noteq> [] \<and> c \<in> set Object_prototype then OneKey c (Some (Inherited c))
          else AllSkills (skills pd))"
  by (cases "own_property (skills pd) c")
     (simp_all add: getSkills_def js_in_def js_get_def Let_def)

text \<open>
  C10. \<open>toString\<close> is not a category of the sample skills, yet \<open>"toString" in skills\<close> holds
  because the \<open>in\<close> operator finds the member every object inherits from
  \<open>Object.prototype\<close>; so \<open>get_skills(category = "toString")\<close> returns an object with the
  single key \<open>toString\<close> bound to that inherited function, not the whole skills object.
\<close>

theorem get_skills_inherited_key:
  "getSkills sample_profile (JObj [(''category'', JStr ''toString'')])
     = Inr (OneKey ''toString'' (Some (Inherited ''toString'')))
   \<and> getSkills sample_profile (JObj [(''category'', JStr ''toString'')])
     \<noteq> Inr (AllSkills (skills sample_profile))
   \<and> ''toString'' \<notin> fst ` set (skills sample_profile)"
  by (simp add: getSkills_def js_in_def js_get_def own_property_def Object_prototype_def
      sample_profile_def)


end
